theory Spec2Isabelle
  imports Complex_Main "HOL-Library.Multiset"
begin

section \<open>JavaScript values\<close>

text \<open>
  The directory document is whatever \<^verbatim>\<open>res.json()\<close> yields, so router entries are
  untyped JavaScript values. \<open>JObj\<close> lists the own properties of an object in the order
  in which \<^verbatim>\<open>Object.values\<close> enumerates them, every key once. \<open>JUndefined\<close> is the
  value of a property that is not there.
\<close>

datatype json =
    JUndefined
  | JNull
  | JBool bool
  | JNum real
  | JStr string
  | JArr "json list"
  | JObj "(string \<times> json) list"

text \<open>\<^verbatim>\<open>!!v\<close>: the values JavaScript treats as false are undefined, null, false, 0 and
  the empty string.\<close>

fun truthy :: "json \<Rightarrow> bool" where
  "truthy JUndefined = False"
| "truthy JNull = False"
| "truthy (JBool b) = b"
| "truthy (JNum x) = (x \<noteq> 0)"
| "truthy (JStr s) = (s \<noteq> [])"
| "truthy (JArr xs) = True"
| "truthy (JObj kvs) = True"

text \<open>\<^verbatim>\<open>a || b\<close> and \<^verbatim>\<open>a && b\<close> return one of their operands.\<close>

definition js_or :: "json \<Rightarrow> json \<Rightarrow> json" where
  "js_or a b = (if truthy a then a else b)"

definition js_and :: "json \<Rightarrow> json \<Rightarrow> json" where
  "js_and a b = (if truthy a then b else a)"

text \<open>
  \<^verbatim>\<open>o.key\<close> for the six keys the directory parser reads (\<^verbatim>\<open>_real_position\<close>,
  \<^verbatim>\<open>position\<close>, \<^verbatim>\<open>site\<close>, \<^verbatim>\<open>shortname\<close>, \<^verbatim>\<open>fch-enabled\<close>, \<^verbatim>\<open>ws-tls\<close>): none of
  them is inherited from a prototype, so the read is a lookup among the own properties
  of an object and undefined on every other value. Reading a property of null raises a
  TypeError; that case is decided by \<open>nullish\<close> before any \<open>field\<close> is read.
\<close>

fun field :: "json \<Rightarrow> string \<Rightarrow> json" where
  "field (JObj kvs) k = (case map_of kvs k of None \<Rightarrow> JUndefined | Some v \<Rightarrow> v)"
| "field v k = JUndefined"

fun nullish :: "json \<Rightarrow> bool" where
  "nullish JUndefined = True"
| "nullish JNull = True"
| "nullish v = False"

text \<open>\<^verbatim>\<open>Array.isArray(pos) && pos.length === 2\<close>, with the two elements.\<close>

fun as_pair :: "json \<Rightarrow> (json \<times> json) option" where
  "as_pair (JArr [a, b]) = Some (a, b)"
| "as_pair v = None"

section \<open>Errors, network calls and the timeout timer\<close>

datatype rejection = NetworkFailure | MalformedBody

text \<open>
  The exceptions of the code: the reason of the abort, \<^verbatim>\<open>new Error("timeout")\<close>; the
  rejection of a network call; \<^verbatim>\<open>new Error(`HTTP ${res.status}`)\<close>; the TypeError of
  reading a property of null or undefined; the exception of the distance function; and
  the rejection without a reason of the \<^verbatim>\<open>abortableFetch\<close> of the earlier revisions.
\<close>

datatype error =
  Timeout | Rejection rejection | HttpStatus nat | TypeError | DistanceError | NoReason

text \<open>
  What one step of a network call (the arrival of the response, the reading of its body)
  does when nothing cancels it: it never settles, it rejects after so many milliseconds,
  or it is fulfilled after so many milliseconds. This is the input of the model; what the
  code makes of it is decided by the timer it sets and by the signal it passes.
\<close>

datatype 'a eventually = Never | Fails nat rejection | Arrives nat 'a

record 'b response =
  status :: nat
  contentType :: "string option"
  body :: "'b eventually"

text \<open>\<^verbatim>\<open>res.ok\<close>\<close>

definition ok :: "'b response \<Rightarrow> bool" where
  "ok res = (200 \<le> status res \<and> status res \<le> 299)"

text \<open>
  \<^verbatim>\<open>const abort = new AbortController();\<close>
  \<^verbatim>\<open>const timer = setTimeout(() => abort.abort(new Error("timeout")), ms);\<close>
  The state of this pair inside the \<^verbatim>\<open>try\<close> block, before any \<^verbatim>\<open>clearTimeout\<close>:
  the milliseconds elapsed since the timer was set, the delay of the timer, whether the
  timer has fired (its callback has aborted the signal), and whether a network call has
  been cancelled through the signal.
\<close>

record progress =
  elapsed :: nat
  due :: nat
  fired :: bool
  cancelled :: bool

definition armed :: "nat \<Rightarrow> progress" where
  "armed ms = \<lparr>elapsed = 0, due = ms, fired = False, cancelled = False\<rparr>"

text \<open>The time at which a step that starts at \<open>e\<close> settles by itself, and how.\<close>

definition settles :: "'a eventually \<Rightarrow> nat \<Rightarrow> (nat \<times> (error + 'a)) option" where
  "settles step e =
     (case step of
        Never \<Rightarrow> None
      | Fails d r \<Rightarrow> Some (e + d, Inl (Rejection r))
      | Arrives d x \<Rightarrow> Some (e + d, Inr x))"

text \<open>
  Awaiting a step of a call that was made with the signal, \<^verbatim>\<open>fetch(url, {signal})\<close>
  and the reading of the body of its response. A step that settles before the timer is
  due has its own outcome. Otherwise the timer fires first: its callback aborts the
  signal, the call is cancelled and the step rejects with the reason of the abort, the
  timeout error. A step stamped with the very millisecond at which the timer is due is
  taken to settle after the timer has fired. On a signal that is aborted already the step
  rejects at once.
\<close>

definition fetch_signal :: "'a eventually \<Rightarrow> progress \<Rightarrow> (error + 'a) \<times> progress" where
  "fetch_signal step p =
     (if fired p then (Inl Timeout, p\<lparr>cancelled := True\<rparr>)
      else case settles step (elapsed p) of
        None \<Rightarrow> (Inl Timeout, p\<lparr>elapsed := due p, fired := True, cancelled := True\<rparr>)
      | Some (t, r) \<Rightarrow>
          if t < due p then (r, p\<lparr>elapsed := t\<rparr>)
          else (Inl Timeout, p\<lparr>elapsed := due p, fired := True, cancelled := True\<rparr>))"

text \<open>
  The timer after the \<^verbatim>\<open>try\<close> block: pending until it fires, unless
  \<^verbatim>\<open>clearTimeout\<close> has cleared it.
\<close>

datatype timer = Pending | Cleared | Fired

definition timer_of :: "progress \<Rightarrow> timer" where
  "timer_of p = (if fired p then Fired else Pending)"

definition clearTimeout :: "timer \<Rightarrow> timer" where
  "clearTimeout t = (case t of Pending \<Rightarrow> Cleared | Cleared \<Rightarrow> Cleared | Fired \<Rightarrow> Fired)"

section \<open>The platform\<close>

text \<open>
  The outcome of one call of the distance function of the \<^verbatim>\<open>@turf/distance\<close> package:
  it throws (on a coordinate that is no number but an array), it returns NaN (on a
  coordinate that is not a number), or it returns a number.
\<close>

datatype dist = Throws | NaN | Num real

text \<open>
  Functions of the JavaScript runtime and of the \<^verbatim>\<open>@turf/distance\<close> package that the
  repository calls and does not define. \<open>parseInt\<close> is \<^verbatim>\<open>Number.parseInt(s, 10)\<close> and
  \<open>parseFloat\<close> is \<^verbatim>\<open>Number.parseFloat(s)\<close>, with \<open>None\<close> for a result that is not a
  finite number; \<open>toString\<close> is the conversion a template literal applies to a number
  (\<open>None\<close>: a value that is not a number); \<open>url_host\<close> is \<^verbatim>\<open>new URL(v).host\<close>, \<open>None\<close>
  when the constructor throws; \<open>distance\<close> is the geodesic distance between the position
  of a query and the position of a router. \<open>engine_order\<close> is the order in which
  \<^verbatim>\<open>Array.prototype.sort\<close> leaves an array whose comparator is not consistent, as the
  list of the indices of its elements, given the keys that the comparator compares: the
  language leaves this order to the implementation.
\<close>

record platform =
  parseInt :: "string \<Rightarrow> int option"
  parseFloat :: "string \<Rightarrow> real option"
  toString :: "real option \<Rightarrow> string"
  url_host :: "json \<Rightarrow> string option"
  distance :: "real option \<times> real option \<Rightarrow> json \<times> json \<Rightarrow> dist"
  engine_order :: "dist list \<Rightarrow> nat list"

section \<open>The router directory (testbed.mjs)\<close>

record router =
  id_field :: json
  position :: "json \<times> json"
  host :: string
  udp :: json
  wss :: json

text \<open>\<^verbatim>\<open>o._real_position || o.position\<close>\<close>

definition preferred_position :: "json \<Rightarrow> json" where
  "preferred_position entry = js_or (field entry ''_real_position'') (field entry ''position'')"

text \<open>The body of the loop of \<^verbatim>\<open>fetchTestbedNodes\<close>: \<open>Inr None\<close> is \<^verbatim>\<open>continue\<close>.\<close>

definition parse_entry :: "platform \<Rightarrow> json \<Rightarrow> error + router option" where
  "parse_entry P entry =
     (if nullish entry then Inl TypeError
      else case as_pair (preferred_position entry) of
        None \<Rightarrow> Inr None
      | Some (p0, p1) \<Rightarrow>
          (case url_host P (field entry ''site'') of
             None \<Rightarrow> Inr None
           | Some h \<Rightarrow>
               if h = [] \<or> h = ''0.0.0.0'' then Inr None
               else Inr (Some \<lparr>id_field = field entry ''shortname'',
                                position = (p1, p0),
                                host = h,
                                udp = field entry ''fch-enabled'',
                                wss = js_and (field entry ''fch-enabled'') (field entry ''ws-tls'')\<rparr>)))"

text \<open>The loop: \<^verbatim>\<open>routers.push\<close> onto the list built so far; an exception leaves the loop.\<close>

fun parse_entries :: "platform \<Rightarrow> json list \<Rightarrow> router list \<Rightarrow> error + router list" where
  "parse_entries P [] acc = Inr acc"
| "parse_entries P (e # es) acc =
     (case parse_entry P e of
        Inl err \<Rightarrow> Inl err
      | Inr None \<Rightarrow> parse_entries P es acc
      | Inr (Some r) \<Rightarrow> parse_entries P es (acc @ [r]))"

text \<open>\<^verbatim>\<open>Object.values(j)\<close>\<close>

fun object_values :: "json \<Rightarrow> error + json list" where
  "object_values JUndefined = Inl TypeError"
| "object_values JNull = Inl TypeError"
| "object_values (JObj kvs) = Inr (map snd kvs)"
| "object_values (JArr xs) = Inr xs"
| "object_values (JStr s) = Inr (map (\<lambda>c. JStr [c]) s)"
| "object_values (JBool b) = Inr []"
| "object_values (JNum x) = Inr []"

text \<open>The statements of \<^verbatim>\<open>fetchTestbedNodes\<close> after \<^verbatim>\<open>res.json()\<close>.\<close>

definition routers_of_document :: "platform \<Rightarrow> json \<Rightarrow> error + router list" where
  "routers_of_document P j =
     (case object_values j of Inl e \<Rightarrow> Inl e | Inr es \<Rightarrow> parse_entries P es [])"

text \<open>
  \<^verbatim>\<open>fetchTestbedNodes(signal)\<close>: the fetch is made with the signal, so both awaits, of
  the response and of \<^verbatim>\<open>res.json()\<close>, end when the signal is aborted.
\<close>

definition fetchTestbedNodes ::
  "platform \<Rightarrow> json response eventually \<Rightarrow> progress \<Rightarrow> (error + router list) \<times> progress" where
  "fetchTestbedNodes P net p =
     (case fetch_signal net p of
        (Inl e, p1) \<Rightarrow> (Inl e, p1)
      | (Inr res, p1) \<Rightarrow>
          if \<not> ok res then (Inl (HttpStatus (status res)), p1)
          else (case fetch_signal (body res) p1 of
                  (Inl e, p2) \<Rightarrow> (Inl e, p2)
                | (Inr j, p2) \<Rightarrow> (routers_of_document P j, p2)))"

text \<open>
  The module state of testbed.mjs, and what one call of \<^verbatim>\<open>listRouters\<close> does to it:
  the state it leaves, the list it returns, whether it issued a network fetch, and the
  state of its timer when it returns (\<open>None\<close>: it set no timer).
\<close>

record cache =
  routers :: "router list"
  lastFetch :: int

record listing =
  cache_after :: cache
  returned :: "router list"
  fetched :: bool
  timer_left :: "timer option"

text \<open>
  \<^verbatim>\<open>lastFetch + 3600000 < Date.now()\<close>, evaluated when the call starts. A call that finds
  the cache fresh returns it at once.
\<close>

definition stale :: "cache \<Rightarrow> int \<Rightarrow> bool" where
  "stale c now = (lastFetch c + 3600000 < now)"

definition unchanged :: "cache \<Rightarrow> listing" where
  "unchanged c = \<lparr>cache_after = c, returned = routers c, fetched = False, timer_left = None\<rparr>"

text \<open>
  A call that finds the cache stale sets a timer of 2000 ms, starts the fetch and is
  suspended at the \<^verbatim>\<open>await\<close>. \<open>refresh\<close> is the rest of the call, which runs when the
  fetch has settled, on the module state \<open>c\<close> of that moment: the assignments to
  \<^verbatim>\<open>routers\<close> and \<^verbatim>\<open>lastFetch\<close> after a success (\<open>now'\<close> is \<^verbatim>\<open>Date.now()\<close> then), the
  \<^verbatim>\<open>catch\<close> after a failure, and \<^verbatim>\<open>return routers\<close>.
\<close>

definition directory_attempt ::
  "platform \<Rightarrow> json response eventually \<Rightarrow> (error + router list) \<times> progress" where
  "directory_attempt P net = fetchTestbedNodes P net (armed 2000)"

definition refresh :: "platform \<Rightarrow> cache \<Rightarrow> json response eventually \<Rightarrow> int \<Rightarrow> listing" where
  "refresh P c net now' =
     (case directory_attempt P net of
        (Inr rs, p) \<Rightarrow>
          \<lparr>cache_after = \<lparr>routers = rs, lastFetch = now'\<rparr>, returned = rs,
           fetched = True, timer_left = Some (clearTimeout (timer_of p))\<rparr>
      | (Inl e, p) \<Rightarrow>
          \<lparr>cache_after = c, returned = routers c, fetched = True,
           timer_left = Some (timer_of p)\<rparr>)"

text \<open>
  One call of \<^verbatim>\<open>listRouters\<close> during which no other call touches the module state:
  \<open>now\<close> is \<^verbatim>\<open>Date.now()\<close> at the staleness test.
\<close>

definition listRouters ::
  "platform \<Rightarrow> cache \<Rightarrow> int \<Rightarrow> json response eventually \<Rightarrow> int \<Rightarrow> listing" where
  "listRouters P c now net now' = (if stale c now then refresh P c net now' else unchanged c)"

text \<open>
  Calls that overlap. The module is one state shared by all calls; a call is suspended
  between its staleness test and the rest of its body, and other calls may start or
  resume meanwhile. \<open>Call i now\<close>: call \<open>i\<close> starts. \<open>Resume i now'\<close>: the fetch of call
  \<open>i\<close> has settled and the call runs to its end. \<open>nets i\<close> is what the network does with
  the fetch of call \<open>i\<close>.
\<close>

datatype event = Call nat int | Resume nat int

record directory =
  mem :: cache
  awaiting :: "nat list"
  answers :: "(nat \<times> router list) list"
  fetches :: nat

definition idle :: "cache \<Rightarrow> directory" where
  "idle c = \<lparr>mem = c, awaiting = [], answers = [], fetches = 0\<rparr>"

fun step :: "platform \<Rightarrow> (nat \<Rightarrow> json response eventually) \<Rightarrow> event \<Rightarrow> directory \<Rightarrow> directory" where
  "step P nets (Call i now) d =
     (if stale (mem d) now
      then d\<lparr>awaiting := i # awaiting d, fetches := Suc (fetches d)\<rparr>
      else d\<lparr>answers := answers d @ [(i, routers (mem d))]\<rparr>)"
| "step P nets (Resume i now') d =
     (if i \<in> set (awaiting d)
      then d\<lparr>mem := cache_after (refresh P (mem d) (nets i) now'),
             awaiting := removeAll i (awaiting d),
             answers := answers d @ [(i, returned (refresh P (mem d) (nets i) now'))]\<rparr>
      else d)"

definition run ::
  "platform \<Rightarrow> (nat \<Rightarrow> json response eventually) \<Rightarrow> event list \<Rightarrow> directory \<Rightarrow> directory" where
  "run P nets evs d = fold (step P nets) evs d"

section \<open>Queries (main.mjs)\<close>

text \<open>
  \<^verbatim>\<open>URLSearchParams\<close>: the list of name-value pairs in document order. \<open>sp_get\<close> is
  the first value of a name (\<open>None\<close> for \<^verbatim>\<open>null\<close>), \<open>sp_getAll\<close> all its values,
  \<open>sp_set\<close> overwrites the first pair of the name and removes its other pairs, or appends.
\<close>

type_synonym params = "(string \<times> string) list"

definition sp_get :: "params \<Rightarrow> string \<Rightarrow> string option" where
  "sp_get s k = map_of s k"

definition sp_getAll :: "params \<Rightarrow> string \<Rightarrow> string list" where
  "sp_getAll s k = map snd (filter (\<lambda>p. fst p = k) s)"

definition sp_has :: "params \<Rightarrow> string \<Rightarrow> bool" where
  "sp_has s k = (sp_getAll s k \<noteq> [])"

definition sp_append :: "params \<Rightarrow> string \<Rightarrow> string \<Rightarrow> params" where
  "sp_append s k v = s @ [(k, v)]"

fun replace_first :: "params \<Rightarrow> string \<Rightarrow> string \<Rightarrow> params" where
  "replace_first [] k v = []"
| "replace_first (p # s) k v =
     (if fst p = k then (k, v) # filter (\<lambda>p'. fst p' \<noteq> k) s else p # replace_first s k v)"

definition sp_set :: "params \<Rightarrow> string \<Rightarrow> string \<Rightarrow> params" where
  "sp_set s k v = (if sp_has s k then replace_first s k v else sp_append s k v)"

text \<open>
  What the \<^verbatim>\<open>Query\<close> constructor reads of a request: the search parameters of its
  URL, the \<^verbatim>\<open>CF-Connecting-IP\<close> and \<^verbatim>\<open>Accept\<close> headers, and the position hint
  \<^verbatim>\<open>req.cf.longitude\<close>, \<^verbatim>\<open>req.cf.latitude\<close> (\<open>None\<close>: not a number). The Workers
  runtime attaches the \<^verbatim>\<open>cf\<close> object to every inbound request.
\<close>

record request =
  searchParams :: params
  connecting_ip :: "string option"
  accept :: "string option"
  cf_longitude :: "real option"
  cf_latitude :: "real option"

record query =
  count_q :: "int list"
  transport :: "string list"
  ipv4 :: bool
  ipv6 :: bool
  lon :: "real option"
  lat :: "real option"
  network :: "string option"

definition parseBooleanParam :: "params \<Rightarrow> string \<Rightarrow> bool \<Rightarrow> bool" where
  "parseBooleanParam s key dflt =
     (if sp_get s key = Some ''1'' then True
      else if sp_get s key = Some ''0'' then False
      else dflt)"

text \<open>\<^verbatim>\<open>Number.parseFloat(search.get(key))\<close>; \<^verbatim>\<open>Number.parseFloat(null)\<close> is NaN.\<close>

definition float_param :: "platform \<Rightarrow> params \<Rightarrow> string \<Rightarrow> real option" where
  "float_param P s key = (case sp_get s key of None \<Rightarrow> None | Some x \<Rightarrow> parseFloat P x)"

text \<open>Every comparison with NaN is false.\<close>

definition parseFloatParam ::
  "platform \<Rightarrow> params \<Rightarrow> string \<Rightarrow> real \<Rightarrow> real \<Rightarrow> real option \<Rightarrow> real option" where
  "parseFloatParam P s key lo hi dflt =
     (case float_param P s key of
        None \<Rightarrow> dflt
      | Some v \<Rightarrow> if lo \<le> v \<and> v \<le> hi then Some v else dflt)"

text \<open>\<^verbatim>\<open>Number.isFinite(n) ? Math.max(1, n) : 1\<close>\<close>

definition parse_count :: "platform \<Rightarrow> string \<Rightarrow> int" where
  "parse_count P k = (case parseInt P k of None \<Rightarrow> 1 | Some n \<Rightarrow> max 1 n)"

definition Query :: "platform \<Rightarrow> request \<Rightarrow> query" where
  "Query P req =
     (let s = searchParams req;
          ip = (case connecting_ip req of None \<Rightarrow> [] | Some a \<Rightarrow> a)
      in \<lparr>count_q = map (parse_count P) (if sp_has s ''k'' then sp_getAll s ''k'' else [''1'']),
          transport = (if sp_has s ''cap'' then sp_getAll s ''cap'' else [''udp'']),
          ipv4 = parseBooleanParam s ''ipv4'' True,
          ipv6 = parseBooleanParam s ''ipv6'' (CHR '':'' \<in> set ip),
          lon = parseFloatParam P s ''lon'' (- 180) 180 (cf_longitude req),
          lat = parseFloatParam P s ''lat'' (- 90) 90 (cf_latitude req),
          network = sp_get s ''network''\<rparr>)"

definition toSearchParams :: "platform \<Rightarrow> query \<Rightarrow> params" where
  "toSearchParams P q =
     (let s1 = fold (\<lambda>k s. sp_append s ''k'' (toString P (Some (real_of_int k)))) (count_q q) [];
          s2 = fold (\<lambda>c s. sp_append s ''cap'' c) (transport q) s1;
          s3 = sp_set s2 ''ipv4'' (if ipv4 q then ''1'' else ''0'');
          s4 = sp_set s3 ''ipv6'' (if ipv6 q then ''1'' else ''0'');
          s5 = sp_set s4 ''lon'' (toString P (lon q));
          s6 = sp_set s5 ''lat'' (toString P (lat q))
      in case network q of
           None \<Rightarrow> s6
         | Some n \<Rightarrow> if n \<noteq> [] then sp_set s6 ''network'' n else s6)"

section \<open>The fallback computation (main.mjs)\<close>

text \<open>
  \<^verbatim>\<open>!!router[c]\<close> for a router built by \<^verbatim>\<open>fetchTestbedNodes\<close>: an object literal
  with the five own properties, whose prototype is \<^verbatim>\<open>Object.prototype\<close>. The position
  is an array and the inherited members are functions or objects, all of them true values.
\<close>

definition object_prototype_names :: "string list" where
  "object_prototype_names =
     [''constructor'', ''__defineGetter__'', ''__defineSetter__'', ''hasOwnProperty'',
      ''__lookupGetter__'', ''__lookupSetter__'', ''isPrototypeOf'', ''propertyIsEnumerable'',
      ''toString'', ''valueOf'', ''__proto__'', ''toLocaleString'']"

definition truthy_prop :: "router \<Rightarrow> string \<Rightarrow> bool" where
  "truthy_prop r c =
     (if c = ''id'' then truthy (id_field r)
      else if c = ''position'' then True
      else if c = ''host'' then host r \<noteq> []
      else if c = ''udp'' then truthy (udp r)
      else if c = ''wss'' then truthy (wss r)
      else c \<in> set object_prototype_names)"

text \<open>\<^verbatim>\<open>xs.slice(0, end)\<close>: an undefined end keeps the whole array, a negative end counts
  from the end of the array.\<close>

definition slice0 :: "'a list \<Rightarrow> int option \<Rightarrow> 'a list" where
  "slice0 xs e =
     (case e of
        None \<Rightarrow> xs
      | Some n \<Rightarrow> if n < 0 then take (nat (int (length xs) + n)) xs else take (nat n) xs)"

text \<open>\<^verbatim>\<open>count[0]\<close>\<close>

definition first_count :: "query \<Rightarrow> int option" where
  "first_count q = (case count_q q of [] \<Rightarrow> None | n # ns \<Rightarrow> Some n)"

fun join :: "string \<Rightarrow> string list \<Rightarrow> string" where
  "join sep [] = []"
| "join sep [x] = x"
| "join sep (x # y # ys) = x @ sep @ join sep (y # ys)"

text \<open>\<^verbatim>\<open>routers.filter((router) => q.transport.some((c) => !!router[c]))\<close>\<close>

definition avail :: "query \<Rightarrow> router list \<Rightarrow> router list" where
  "avail q rs = filter (\<lambda>r. list_ex (\<lambda>c. truthy_prop r c) (transport q)) rs"

text \<open>\<^verbatim>\<open>distance(pos, a.position)\<close> with \<^verbatim>\<open>pos = [q.lon, q.lat]\<close>\<close>

definition dist_key :: "platform \<Rightarrow> query \<Rightarrow> router \<Rightarrow> dist" where
  "dist_key P q r = distance P (lon q, lat q) (position r)"

fun number :: "dist \<Rightarrow> real" where
  "number (Num x) = x"
| "number NaN = 0"
| "number Throws = 0"

fun numbers :: "dist list \<Rightarrow> real list" where
  "numbers [] = []"
| "numbers (Num x # ks) = x # numbers ks"
| "numbers (NaN # ks) = numbers ks"
| "numbers (Throws # ks) = numbers ks"

fun all_equal :: "real list \<Rightarrow> bool" where
  "all_equal [] = True"
| "all_equal (x # xs) = list_all (\<lambda>y. y = x) xs"

text \<open>
  \<^verbatim>\<open>avail.sort((a, b) => distance(pos, a.position) - distance(pos, b.position))\<close>.
  \<^item> On an array of at most one element the comparator is not called.
  \<^item> On a longer array every element is compared at least once, so the sort ends with
    the exception of the distance function if that throws for one of them.
  \<^item> If all distances are numbers, the sign of their difference is their order and
    the sort, which is stable, is \<open>sort_key\<close> on the distance.
  \<^item> A difference with NaN is NaN, which the sort takes for 0. If the distances that
    are numbers are all the same, all elements compare equal and the array stays as it
    is. Otherwise the comparator is not consistent and the order is the engine's.
\<close>

definition js_sort :: "platform \<Rightarrow> ('a \<Rightarrow> dist) \<Rightarrow> 'a list \<Rightarrow> error + 'a list" where
  "js_sort P k xs =
     (if length xs \<le> 1 then Inr xs
      else if Throws \<in> set (map k xs) then Inl DistanceError
      else if NaN \<notin> set (map k xs) then Inr (sort_key (\<lambda>x. number (k x)) xs)
      else if all_equal (numbers (map k xs)) then Inr xs
      else Inr (map (\<lambda>i. xs ! i) (filter (\<lambda>i. i < length xs) (engine_order P (map k xs)))))"

definition sorted_avail :: "platform \<Rightarrow> query \<Rightarrow> router list \<Rightarrow> error + router list" where
  "sorted_avail P q rs = js_sort P (dist_key P q) (avail q rs)"

text \<open>
  \<^verbatim>\<open>fallbackLogic\<close> has no \<^verbatim>\<open>try\<close>: \<^verbatim>\<open>listRouters\<close> catches its own exceptions, the
  exception of the sort leaves the function. The call of \<^verbatim>\<open>listRouters\<close> is done by then.
\<close>

definition fallbackLogic ::
  "platform \<Rightarrow> query \<Rightarrow> cache \<Rightarrow> int \<Rightarrow> json response eventually \<Rightarrow> int
     \<Rightarrow> listing \<times> (error + string option \<times> string)" where
  "fallbackLogic P q c now net now' =
     (let l = listRouters P c now net now'
      in (l, case sorted_avail P q (returned l) of
               Inl e \<Rightarrow> Inl e
             | Inr s \<Rightarrow> Inr (Some ''text/plain'',
                             join '','' (map host (slice0 s (first_count q))))))"

section \<open>The resolver (main.mjs)\<close>

text \<open>
  The upstream API answers the request that \<^verbatim>\<open>apiRequest\<close> sends: the parameters of
  \<^verbatim>\<open>toSearchParams\<close> appended to the API address, and the caller's \<^verbatim>\<open>Accept\<close> header.
  The fetch is made with the signal, \<^verbatim>\<open>fetch(uri.toString(), {headers, signal})\<close>.
\<close>

type_synonym upstream = "params \<Rightarrow> string option \<Rightarrow> string response eventually"

definition apiRequest ::
  "platform \<Rightarrow> query \<Rightarrow> string option \<Rightarrow> upstream \<Rightarrow> progress
     \<Rightarrow> (error + string option \<times> string) \<times> progress" where
  "apiRequest P q acc up p =
     (case fetch_signal (up (toSearchParams P q) acc) p of
        (Inl e, p1) \<Rightarrow> (Inl e, p1)
      | (Inr res, p1) \<Rightarrow>
          if \<not> ok res then (Inl (HttpStatus (status res)), p1)
          else (case fetch_signal (body res) p1 of
                  (Inl e, p2) \<Rightarrow> (Inl e, p2)
                | (Inr txt, p2) \<Rightarrow> (Inr (contentType res, txt), p2)))"

text \<open>The awaited call in the \<^verbatim>\<open>try\<close> block of \<^verbatim>\<open>handleQuery\<close>, under its timer of
  1000 ms.\<close>

definition upstream_attempt ::
  "platform \<Rightarrow> query \<Rightarrow> string option \<Rightarrow> upstream
     \<Rightarrow> (error + string option \<times> string) \<times> progress" where
  "upstream_attempt P q acc up = apiRequest P q acc up (armed 1000)"

text \<open>
  The response of \<^verbatim>\<open>handleQuery\<close>: body, content type (\<open>None\<close> is the \<^verbatim>\<open>null\<close> that
  \<^verbatim>\<open>headers.get\<close> returns for an upstream answer without one), and the
  \<^verbatim>\<open>X-FCH-source\<close> and \<^verbatim>\<open>X-FCH-query\<close> values.
\<close>

record reply =
  reply_body :: string
  reply_type :: "string option"
  source :: string
  reply_query :: params

text \<open>
  What a call of \<^verbatim>\<open>handleQuery\<close> does: it returns a response or an exception leaves
  it; the state of the upstream timer when the \<^verbatim>\<open>try\<close> statement is left; and the call
  of \<^verbatim>\<open>listRouters\<close>, if the fallback ran. Only the upstream attempt stands in the
  \<^verbatim>\<open>try\<close> block; \<^verbatim>\<open>await fallbackLogic(q)\<close> stands after it.
\<close>

record handled =
  outcome :: "error + reply"
  api_timer :: timer
  directory_call :: "listing option"

definition handleQuery ::
  "platform \<Rightarrow> request \<Rightarrow> upstream \<Rightarrow> cache \<Rightarrow> int \<Rightarrow> json response eventually \<Rightarrow> int
     \<Rightarrow> handled" where
  "handleQuery P req up c now net now' =
     (let q = Query P req;
          (ct, b, src, t) =
            (case upstream_attempt P q (accept req) up of
               (Inr (ct', b'), p) \<Rightarrow> (ct', b', ''api'', clearTimeout (timer_of p))
             | (Inl e, p) \<Rightarrow> (Some ''text/plain'', [], [], timer_of p))
      in if b = [] then
           (case fallbackLogic P q c now net now' of
              (l, Inl e) \<Rightarrow> \<lparr>outcome = Inl e, api_timer = t, directory_call = Some l\<rparr>
            | (l, Inr (ct2, b2)) \<Rightarrow>
                \<lparr>outcome = Inr \<lparr>reply_body = b2, reply_type = ct2, source = ''fallback'',
                                 reply_query = toSearchParams P q\<rparr>,
                 api_timer = t, directory_call = Some l\<rparr>)
         else \<lparr>outcome = Inr \<lparr>reply_body = b, reply_type = ct, source = src,
                               reply_query = toSearchParams P q\<rparr>,
               api_timer = t, directory_call = None\<rparr>)"

section \<open>Earlier revisions kept in the repository\<close>

text \<open>
  An earlier testbed.mjs declares \<^verbatim>\<open>const lastFetch = 0\<close> and never records a fetch, so
  its staleness test is \<^verbatim>\<open>0 + 3600000 < Date.now()\<close>.
\<close>

definition stale_early :: "int \<Rightarrow> bool" where
  "stale_early now = (0 + 3600000 < now)"

text \<open>
  An earlier \<^verbatim>\<open>Query\<close> constructor reads the transport as
  \<^verbatim>\<open>url.searchParams.getAll("cap") || ["udp"]\<close>. An array is a true value, also when it
  is empty, so the right operand is never taken.
\<close>

definition cap_early :: "params \<Rightarrow> string list" where
  "cap_early s = sp_getAll s ''cap''"

text \<open>
  Earlier revisions of the resolver and of the directory make the call as
  \<^verbatim>\<open>abortableFetch(req, signal)\<close>, with a signal of their own class:
  \<^verbatim>\<open>Promise.race([fetch(req), new Promise((resolve, reject) => {signal.callback = reject; if (signal.aborted) {reject();}})])\<close>.
  When the timer fires, \<^verbatim>\<open>abort()\<close> calls the callback without an argument: the
  race rejects with no reason, and nothing reaches \<^verbatim>\<open>fetch(req)\<close>, which goes on.
\<close>

definition abortableFetch :: "'a eventually \<Rightarrow> progress \<Rightarrow> (error + 'a) \<times> progress" where
  "abortableFetch st p =
     (if fired p then (Inl NoReason, p)
      else case settles st (elapsed p) of
        None \<Rightarrow> (Inl NoReason, p\<lparr>elapsed := due p, fired := True\<rparr>)
      | Some (t, r) \<Rightarrow>
          if t < due p then (r, p\<lparr>elapsed := t\<rparr>)
          else (Inl NoReason, p\<lparr>elapsed := due p, fired := True\<rparr>))"
section \<open>A platform on decimal integers\<close>

text \<open>
  An instance of the platform for running the model on concrete requests: numbers are
  read and written as decimal integers, the host of an \<^verbatim>\<open>http://\<close> address is what
  stands before the first slash after the scheme, and the distance is the squared planar
  distance, which orders points on a small patch like the geodesic one; it throws on a
  coordinate that is an array and is NaN on any other coordinate that is not a number.
  Its sort leaves an array with an inconsistent comparator as it is.
\<close>

definition is_digit :: "char \<Rightarrow> bool" where
  "is_digit c = (c \<in> set ''0123456789'')"

definition digit_value :: "char \<Rightarrow> nat" where
  "digit_value c = (case map_of (zip ''0123456789'' [0, 1, 2, 3, 4, 5, 6, 7, 8, 9]) c of
                      None \<Rightarrow> 0 | Some d \<Rightarrow> d)"

definition decimal_value :: "string \<Rightarrow> nat" where
  "decimal_value ds = fold (\<lambda>c acc. 10 * acc + digit_value c) ds 0"

definition decimal_parseInt :: "string \<Rightarrow> int option" where
  "decimal_parseInt s =
     (let neg = (take 1 s = ''-'');
          rest = (if take 1 s = ''-'' \<or> take 1 s = ''+'' then drop 1 s else s);
          ds = takeWhile is_digit rest
      in if ds = [] then None
         else Some (if neg then - int (decimal_value ds) else int (decimal_value ds)))"

definition decimal_parseFloat :: "string \<Rightarrow> real option" where
  "decimal_parseFloat s = map_option real_of_int (decimal_parseInt s)"

fun digits :: "nat \<Rightarrow> string" where
  "digits n =
     (if n < 10 then [''0123456789'' ! n]
      else digits (n div 10) @ [''0123456789'' ! (n mod 10)])"

definition decimal_toString :: "real option \<Rightarrow> string" where
  "decimal_toString x =
     (case x of
        None \<Rightarrow> ''NaN''
      | Some v \<Rightarrow>
          if v \<noteq> real_of_int \<lfloor>v\<rfloor> then ''NaN''
          else if v < 0 then ''-'' @ digits (nat (- \<lfloor>v\<rfloor>))
          else digits (nat \<lfloor>v\<rfloor>))"

definition http_host :: "json \<Rightarrow> string option" where
  "http_host v =
     (case v of
        JStr s \<Rightarrow> if take 7 s = ''http://'' then Some (takeWhile (\<lambda>c. c \<noteq> CHR ''/'') (drop 7 s))
                  else None
      | _ \<Rightarrow> None)"

definition is_array :: "json \<Rightarrow> bool" where
  "is_array v = (case v of JArr xs \<Rightarrow> True | _ \<Rightarrow> False)"

definition coordinate :: "json \<Rightarrow> real option" where
  "coordinate v = (case v of JNum x \<Rightarrow> Some x | _ \<Rightarrow> None)"

definition planar_distance :: "real option \<times> real option \<Rightarrow> json \<times> json \<Rightarrow> dist" where
  "planar_distance p r =
     (if is_array (fst r) \<or> is_array (snd r) then Throws
      else case (fst p, snd p, coordinate (fst r), coordinate (snd r)) of
        (Some x, Some y, Some a, Some b) \<Rightarrow> Num ((x - a) * (x - a) + (y - b) * (y - b))
      | _ \<Rightarrow> NaN)"

definition decimal_platform :: platform where
  "decimal_platform =
     \<lparr>parseInt = decimal_parseInt, parseFloat = decimal_parseFloat,
      toString = decimal_toString, url_host = http_host, distance = planar_distance,
      engine_order = (\<lambda>ks. [0..<length ks])\<rparr>"

section \<open>Notions of the specification\<close>

text \<open>
  The time at which a network call completes when nothing cancels it: when it is
  rejected, when a response with a status outside 2xx has arrived, or when the body of a
  2xx response has been read or its reading has failed. \<open>None\<close>: it never completes.
\<close>

definition completes :: "'b response eventually \<Rightarrow> nat option" where
  "completes net =
     (case net of
        Never \<Rightarrow> None
      | Fails d x \<Rightarrow> Some d
      | Arrives d res \<Rightarrow>
          if \<not> ok res then Some d
          else (case body res of
                  Never \<Rightarrow> None
                | Fails d' x \<Rightarrow> Some (d + d')
                | Arrives d' b \<Rightarrow> Some (d + d')))"

text \<open>
  The outcome of a network call that completes: its rejection, the failure that a status
  outside 2xx is, or the content type and body of a 2xx response.
\<close>

definition call_outcome :: "'b response eventually \<Rightarrow> (error + string option \<times> 'b) option" where
  "call_outcome net =
     (case net of
        Never \<Rightarrow> None
      | Fails d x \<Rightarrow> Some (Inl (Rejection x))
      | Arrives d res \<Rightarrow>
          if \<not> ok res then Some (Inl (HttpStatus (status res)))
          else (case body res of
                  Never \<Rightarrow> None
                | Fails d' x \<Rightarrow> Some (Inl (Rejection x))
                | Arrives d' b \<Rightarrow> Some (Inr (contentType res, b))))"

text \<open>A timer of \<open>ms\<close> milliseconds elapses before the network call completes.\<close>

definition timer_first :: "nat \<Rightarrow> 'b response eventually \<Rightarrow> bool" where
  "timer_first ms net = (case completes net of None \<Rightarrow> True | Some t \<Rightarrow> ms \<le> t)"

text \<open>
  A failing directory fetch, in the words of the specification: a timeout (the bound is
  2000 ms), a network error, a status that is not a success, or a body that cannot be
  read as JSON.
\<close>

definition failing_fetch :: "json response eventually \<Rightarrow> bool" where
  "failing_fetch net =
     (timer_first 2000 net \<or>
      (case call_outcome net of None \<Rightarrow> False | Some (Inl e) \<Rightarrow> True | Some (Inr v) \<Rightarrow> False))"

text \<open>
  The upstream attempt returned a 2xx response with a non-empty body within the timeout
  of 1000 ms: its content type and body.
\<close>

definition api_success :: "string response eventually \<Rightarrow> (string option \<times> string) option" where
  "api_success a =
     (if timer_first 1000 a then None
      else case call_outcome a of
        None \<Rightarrow> None
      | Some (Inl e) \<Rightarrow> None
      | Some (Inr (ct, b)) \<Rightarrow> if b = [] then None else Some (ct, b))"

text \<open>The number of network fetches a call of \<^verbatim>\<open>listRouters\<close> performed.\<close>

definition fetch_count :: "listing \<Rightarrow> nat" where
  "fetch_count l = (if fetched l then 1 else 0)"

text \<open>
  What the specification says the parser makes of one entry of the directory document.
  The preferred position is the real-position override if that is a true value, else the
  standard position. The entry is kept if the preferred position is an array of exactly
  two elements and the URL of the site has a host that is neither empty nor 0.0.0.0. The
  router of a kept entry has the two elements swapped, the enabled flag as udp, and as wss
  the enabled flag and the TLS flag.
\<close>

definition claimed_router :: "platform \<Rightarrow> json \<Rightarrow> router option" where
  "claimed_router P e =
     (case (if truthy (field e ''_real_position'') then field e ''_real_position''
            else field e ''position'') of
        JArr [la, lo] \<Rightarrow>
          (case url_host P (field e ''site'') of
             None \<Rightarrow> None
           | Some h \<Rightarrow>
               if h \<noteq> [] \<and> h \<noteq> ''0.0.0.0''
               then Some \<lparr>id_field = field e ''shortname'', position = (lo, la), host = h,
                          udp = field e ''fch-enabled'',
                          wss = (if truthy (field e ''fch-enabled'') then field e ''ws-tls''
                                 else field e ''fch-enabled'')\<rparr>
               else None)
      | _ \<Rightarrow> None)"

text \<open>A number within the closed range; NaN is in no range.\<close>

definition in_range :: "real option \<Rightarrow> real \<Rightarrow> real \<Rightarrow> bool" where
  "in_range x lo hi = (case x of None \<Rightarrow> False | Some v \<Rightarrow> lo \<le> v \<and> v \<le> hi)"

text \<open>
  The parameter list of a query written out: one \<^verbatim>\<open>k\<close> for every count, one
  \<^verbatim>\<open>cap\<close> for every transport, then \<^verbatim>\<open>ipv4\<close>, \<^verbatim>\<open>ipv6\<close>, \<^verbatim>\<open>lon\<close>, \<^verbatim>\<open>lat\<close>, and
  \<^verbatim>\<open>network\<close> when it is a non-empty string.
\<close>

definition canonical :: "platform \<Rightarrow> query \<Rightarrow> params" where
  "canonical P q =
     map (\<lambda>k. (''k'', toString P (Some (real_of_int k)))) (count_q q) @
     map (\<lambda>c. (''cap'', c)) (transport q) @
     [(''ipv4'', if ipv4 q then ''1'' else ''0''), (''ipv6'', if ipv6 q then ''1'' else ''0''),
      (''lon'', toString P (lon q)), (''lat'', toString P (lat q))] @
     (case network q of None \<Rightarrow> [] | Some n \<Rightarrow> if n = [] then [] else [(''network'', n)])"

text \<open>
  A capability of a router, in the words of the specification: the capability named \<open>c\<close>
  is a true flag of \<open>r\<close>. The capabilities a router record has are udp and wss.
\<close>

definition capability :: "router \<Rightarrow> string \<Rightarrow> bool" where
  "capability r c = ((c = ''udp'' \<and> truthy (udp r)) \<or> (c = ''wss'' \<and> truthy (wss r)))"

text \<open>At least one capability named in the transport of the query is a true flag.\<close>

definition supports :: "query \<Rightarrow> router \<Rightarrow> bool" where
  "supports q r = (\<exists>c \<in> set (transport q). capability r c)"

text \<open>The names under which a router record has a property that is not a capability.\<close>

definition other_properties :: "string list" where
  "other_properties = [''id'', ''position'', ''host''] @ object_prototype_names"

text \<open>The geodesic distance from the position of the query to the router is a number.\<close>

definition measurable :: "platform \<Rightarrow> query \<Rightarrow> router \<Rightarrow> bool" where
  "measurable P q r = (case distance P (lon q, lat q) (position r) of
                         Num x \<Rightarrow> True | NaN \<Rightarrow> False | Throws \<Rightarrow> False)"

text \<open>That distance.\<close>

definition geodesic :: "platform \<Rightarrow> query \<Rightarrow> router \<Rightarrow> real" where
  "geodesic P q r = (case distance P (lon q, lat q) (position r) of
                       Num x \<Rightarrow> x | NaN \<Rightarrow> 0 | Throws \<Rightarrow> 0)"

text \<open>
  \<open>ys\<close> is \<open>xs\<close> in ascending order of \<open>d\<close>, elements of equal \<open>d\<close> in the order they
  have in \<open>xs\<close>.
\<close>

definition stable_sorted_by :: "('a \<Rightarrow> real) \<Rightarrow> 'a list \<Rightarrow> 'a list \<Rightarrow> bool" where
  "stable_sorted_by d xs ys =
     (mset ys = mset xs \<and> sorted (map d ys) \<and>
      (\<forall>k. filter (\<lambda>y. d y = k) ys = filter (\<lambda>y. d y = k) xs))"

section \<open>Directories and requests to run the model on\<close>

text \<open>
  Three routers: a at (0, 0) and b at (10, 10) with udp, c at (1, 1) without; fetched at
  1700000000000. The same with a fourth router x with udp, whose position is the one the
  parser makes of the entry \<^verbatim>\<open>"position": [[1], [2]]\<close>. A request with the given search
  parameters, no headers and no position hint.
\<close>

definition scenario_cache :: cache where
  "scenario_cache =
     \<lparr>routers =
        [\<lparr>id_field = JStr ''A'', position = (JNum 0, JNum 0), host = ''a'',
          udp = JBool True, wss = JBool False\<rparr>,
         \<lparr>id_field = JStr ''B'', position = (JNum 10, JNum 10), host = ''b'',
          udp = JBool True, wss = JBool False\<rparr>,
         \<lparr>id_field = JStr ''C'', position = (JNum 1, JNum 1), host = ''c'',
          udp = JBool False, wss = JBool False\<rparr>],
      lastFetch = 1700000000000\<rparr>"

definition nested_cache :: cache where
  "nested_cache =
     scenario_cache\<lparr>routers :=
        routers scenario_cache @
        [\<lparr>id_field = JStr ''X'', position = (JArr [JNum 2], JArr [JNum 1]), host = ''x'',
          udp = JBool True, wss = JBool False\<rparr>]\<rparr>"

definition plain_request :: "params \<Rightarrow> request" where
  "plain_request ps =
     \<lparr>searchParams = ps, connecting_ip = None, accept = None,
      cf_longitude = None, cf_latitude = None\<rparr>"

section \<open>Directory entries\<close>

lemmas decimal_eval =
  decimal_platform_def decimal_parseFloat_def decimal_parseInt_def decimal_toString_def
  is_digit_def decimal_value_def digit_value_def http_host_def planar_distance_def
  is_array_def coordinate_def

lemma as_pair_Some: "as_pair v = Some (a, b) \<longleftrightarrow> v = JArr [a, b]"
  by (cases v rule: as_pair.cases) auto

lemma as_pair_None: "as_pair v = None \<longleftrightarrow> (\<forall>a b. v \<noteq> JArr [a, b])"
  by (cases v rule: as_pair.cases) auto

lemma nullish_field: "nullish v \<Longrightarrow> field v k = JUndefined"
  by (cases v) auto

lemma js_and_truthy: "truthy (js_and a b) = (truthy a \<and> truthy b)"
  by (simp add: js_and_def)

lemma parse_entry_claimed: "\<not> nullish e \<Longrightarrow> parse_entry P e = Inr (claimed_router P e)"
proof (cases "as_pair (preferred_position e)")
  case None
  assume "\<not> nullish e"
  moreover from None have "\<forall>a b. preferred_position e \<noteq> JArr [a, b]"
    by (simp add: as_pair_None)
  then have "claimed_router P e = None"
    by (auto simp: claimed_router_def preferred_position_def js_or_def
          split: json.splits list.splits)
  ultimately show ?thesis using None by (simp add: parse_entry_def)
next
  case (Some p)
  assume nn: "\<not> nullish e"
  obtain a b where p: "p = (a, b)" by (cases p)
  with Some have pos: "preferred_position e = JArr [a, b]" by (simp add: as_pair_Some)
  then have "(if truthy (field e ''_real_position'') then field e ''_real_position''
            else field e ''position'') = JArr [a, b]"
    by (simp add: preferred_position_def js_or_def)
  then show ?thesis using nn Some p
    by (auto simp: parse_entry_def claimed_router_def js_and_def split: option.splits)
qed

lemma parse_entry_null: "nullish e \<Longrightarrow> parse_entry P e = Inl TypeError"
  by (simp add: parse_entry_def)

lemma parse_entries_claimed:
  "\<forall>e \<in> set es. \<not> nullish e \<Longrightarrow>
     parse_entries P es acc = Inr (acc @ List.map_filter (claimed_router P) es)"
proof (induction es arbitrary: acc)
  case Nil
  then show ?case by (simp add: map_filter_simps)
next
  case (Cons e es)
  then have "parse_entry P e = Inr (claimed_router P e)"
    by (simp add: parse_entry_claimed)
  with Cons show ?case
    by (cases "claimed_router P e") (simp_all add: map_filter_simps)
qed

lemma parse_entries_null:
  "e \<in> set es \<Longrightarrow> nullish e \<Longrightarrow> parse_entries P es acc = Inl TypeError"
proof (induction es arbitrary: acc)
  case Nil
  then show ?case by simp
next
  case (Cons x xs)
  show ?case
  proof (cases "nullish x")
    case True
    then show ?thesis by (simp add: parse_entry_null)
  next
    case False
    with Cons.prems have "e \<in> set xs" by auto
    with Cons have "\<And>acc. parse_entries P xs acc = Inl TypeError" by blast
    with False show ?thesis
      by (cases "claimed_router P x") (simp_all add: parse_entry_claimed)
  qed
qed

text \<open>
  C7, amended. For a directory document whose values are none of them null or undefined,
  the routers the parser returns are, in the order of the document, the routers that
  \<open>claimed_router\<close> makes of the entries it keeps: the preferred position is the
  real-position override if that is a true value and the standard position otherwise;
  an entry is kept exactly when that is an array of two elements and the host of its
  site is neither empty nor 0.0.0.0; the position is the pair swapped, with no check of
  the range; udp is the enabled flag; wss is the value of enabled-flag \<^verbatim>\<open>&&\<close> TLS flag,
  which is true exactly when both flags are true.
\<close>

theorem C7_document_gives_claimed_routers:
  assumes "object_values j = Inr es" and "\<forall>e \<in> set es. \<not> nullish e"
  shows "routers_of_document P j = Inr (List.map_filter (claimed_router P) es) \<and>
         (\<forall>e \<in> set es. parse_entry P e = Inr (claimed_router P e)) \<and>
         (\<forall>e \<in> set es. \<forall>r. parse_entry P e = Inr (Some r) \<longrightarrow>
            truthy (wss r) = (truthy (field e ''fch-enabled'') \<and> truthy (field e ''ws-tls'')))"
proof -
  have "routers_of_document P j = Inr (List.map_filter (claimed_router P) es)"
    using assms by (simp add: routers_of_document_def parse_entries_claimed)
  moreover have "\<forall>e \<in> set es. parse_entry P e = Inr (claimed_router P e)"
    using assms(2) by (simp add: parse_entry_claimed)
  moreover have "\<forall>e \<in> set es. \<forall>r. parse_entry P e = Inr (Some r) \<longrightarrow>
            truthy (wss r) = (truthy (field e ''fch-enabled'') \<and> truthy (field e ''ws-tls''))"
    by (auto simp: parse_entry_def js_and_truthy split: if_splits option.splits)
  ultimately show ?thesis by blast
qed

text \<open>
  A document of three entries: the first has an override and a standard position of three
  elements, the second the out-of-range position [200, 50], the third the host 0.0.0.0.
\<close>

theorem C7_witness:
  "routers_of_document decimal_platform
     (JObj [(''A'', JObj [(''shortname'', JStr ''A''), (''_real_position'', JArr [JNum 50, JNum 8]),
                          (''position'', JArr [JNum 1, JNum 2, JNum 3]),
                          (''site'', JStr ''http://a.example:6363/''),
                          (''fch-enabled'', JBool True), (''ws-tls'', JBool True)]),
            (''B'', JObj [(''shortname'', JStr ''B''), (''position'', JArr [JNum 200, JNum 50]),
                          (''site'', JStr ''http://b.example/''),
                          (''fch-enabled'', JBool True), (''ws-tls'', JBool False)]),
            (''C'', JObj [(''shortname'', JStr ''C''), (''position'', JArr [JNum 1, JNum 2]),
                          (''site'', JStr ''http://0.0.0.0/''),
                          (''fch-enabled'', JBool True), (''ws-tls'', JBool True)])])
   = Inr [\<lparr>id_field = JStr ''A'', position = (JNum 8, JNum 50), host = ''a.example:6363'',
           udp = JBool True, wss = JBool True\<rparr>,
          \<lparr>id_field = JStr ''B'', position = (JNum 50, JNum 200), host = ''b.example'',
           udp = JBool True, wss = JBool False\<rparr>]"
  using C7_document_gives_claimed_routers [where P = decimal_platform
      and j = "JObj [(''A'', JObj [(''shortname'', JStr ''A''), (''_real_position'', JArr [JNum 50, JNum 8]),
                          (''position'', JArr [JNum 1, JNum 2, JNum 3]),
                          (''site'', JStr ''http://a.example:6363/''),
                          (''fch-enabled'', JBool True), (''ws-tls'', JBool True)]),
            (''B'', JObj [(''shortname'', JStr ''B''), (''position'', JArr [JNum 200, JNum 50]),
                          (''site'', JStr ''http://b.example/''),
                          (''fch-enabled'', JBool True), (''ws-tls'', JBool False)]),
            (''C'', JObj [(''shortname'', JStr ''C''), (''position'', JArr [JNum 1, JNum 2]),
                          (''site'', JStr ''http://0.0.0.0/''),
                          (''fch-enabled'', JBool True), (''ws-tls'', JBool True)])]"
      and es = "[JObj [(''shortname'', JStr ''A''), (''_real_position'', JArr [JNum 50, JNum 8]),
                          (''position'', JArr [JNum 1, JNum 2, JNum 3]),
                          (''site'', JStr ''http://a.example:6363/''),
                          (''fch-enabled'', JBool True), (''ws-tls'', JBool True)],
            JObj [(''shortname'', JStr ''B''), (''position'', JArr [JNum 200, JNum 50]),
                          (''site'', JStr ''http://b.example/''),
                          (''fch-enabled'', JBool True), (''ws-tls'', JBool False)],
            JObj [(''shortname'', JStr ''C''), (''position'', JArr [JNum 1, JNum 2]),
                          (''site'', JStr ''http://0.0.0.0/''),
                          (''fch-enabled'', JBool True), (''ws-tls'', JBool True)]]"]
  by (simp add: claimed_router_def map_filter_simps decimal_platform_def http_host_def)

text \<open>
  C7, as stated, fails in two ways. An entry is not parsed by itself: the entry A is
  kept when it is parsed alone, and no router at all is returned for the document that
  holds A and a null entry, because reading a property of null raises a TypeError that
  leaves \<^verbatim>\<open>fetchTestbedNodes\<close>. And an override that is present but not a true value,
  such as 0, is passed over: the entry D is kept with its standard position.
\<close>

theorem C7_counterexample:
  "parse_entry decimal_platform
     (JObj [(''shortname'', JStr ''A''), (''position'', JArr [JNum 50, JNum 8]),
            (''site'', JStr ''http://a.example/''), (''fch-enabled'', JBool True)])
   = Inr (Some \<lparr>id_field = JStr ''A'', position = (JNum 8, JNum 50), host = ''a.example'',
                udp = JBool True, wss = JUndefined\<rparr>) \<and>
   routers_of_document decimal_platform
     (JObj [(''A'', JObj [(''shortname'', JStr ''A''), (''position'', JArr [JNum 50, JNum 8]),
                          (''site'', JStr ''http://a.example/''), (''fch-enabled'', JBool True)]),
            (''B'', JNull)])
   = Inl TypeError \<and>
   parse_entry decimal_platform
     (JObj [(''shortname'', JStr ''D''), (''_real_position'', JNum 0),
            (''position'', JArr [JNum 50, JNum 8]),
            (''site'', JStr ''http://d.example/''), (''fch-enabled'', JBool True)])
   = Inr (Some \<lparr>id_field = JStr ''D'', position = (JNum 8, JNum 50), host = ''d.example'',
                udp = JBool True, wss = JUndefined\<rparr>)"
  by (simp add: routers_of_document_def parse_entry_def preferred_position_def js_or_def
      js_and_def decimal_platform_def http_host_def)

section \<open>The directory cache\<close>

lemma fetch_signal_cases:
  "\<not> fired p \<Longrightarrow>
   fetch_signal st p =
     (case settles st (elapsed p) of
        None \<Rightarrow> (Inl Timeout, p\<lparr>elapsed := due p, fired := True, cancelled := True\<rparr>)
      | Some (t, r) \<Rightarrow>
          if t < due p then (r, p\<lparr>elapsed := t\<rparr>)
          else (Inl Timeout, p\<lparr>elapsed := due p, fired := True, cancelled := True\<rparr>))"
  by (simp add: fetch_signal_def)

lemma timer_first_fails:
  "timer_first 2000 net \<Longrightarrow> fst (directory_attempt P net) = Inl Timeout"
  by (auto simp: timer_first_def completes_def directory_attempt_def fetchTestbedNodes_def
        fetch_signal_def settles_def armed_def
        split: eventually.splits if_splits)

lemma own_failure_fails:
  "\<not> timer_first 2000 net \<Longrightarrow> call_outcome net = Some (Inl e) \<Longrightarrow>
     fst (directory_attempt P net) = Inl e"
  by (auto simp: timer_first_def completes_def call_outcome_def directory_attempt_def
        fetchTestbedNodes_def fetch_signal_def settles_def armed_def
        split: eventually.splits if_splits)

lemma failing_fetch_fails:
  "failing_fetch net \<Longrightarrow> \<exists>e. fst (directory_attempt P net) = Inl e"
proof (cases "timer_first 2000 net")
  case True
  then show ?thesis using timer_first_fails by blast
next
  case False
  assume "failing_fetch net"
  with False obtain e where "call_outcome net = Some (Inl e)"
    by (auto simp: failing_fetch_def split: option.splits sum.splits)
  with False show ?thesis using own_failure_fails by blast
qed


lemma refresh_failed:
  "fst (directory_attempt P net) = Inl e \<Longrightarrow>
     cache_after (refresh P c net now') = c \<and> returned (refresh P c net now') = routers c"
  by (cases "directory_attempt P net") (auto simp: refresh_def)

lemma refresh_succeeded:
  "fst (directory_attempt P net) = Inr rs \<Longrightarrow>
     cache_after (refresh P c net now') = \<lparr>routers = rs, lastFetch = now'\<rparr> \<and>
     returned (refresh P c net now') = rs"
  by (cases "directory_attempt P net") (auto simp: refresh_def)

lemma refresh_fetched: "fetched (refresh P c net now')"
  by (cases "directory_attempt P net") (auto simp: refresh_def split: sum.splits)

lemma listRouters_failed:
  "fst (directory_attempt P net) = Inl e \<Longrightarrow>
     cache_after (listRouters P c now net now') = c \<and>
     returned (listRouters P c now net now') = routers c"
  by (simp add: listRouters_def refresh_failed unchanged_def)

lemma listRouters_stale_fetches:
  "lastFetch c + 3600000 < now \<Longrightarrow> fetched (listRouters P c now net now')"
  by (simp add: listRouters_def stale_def refresh_fetched)

lemma listRouters_succeeded:
  "lastFetch c + 3600000 < now \<Longrightarrow> fst (directory_attempt P net) = Inr rs \<Longrightarrow>
     cache_after (listRouters P c now net now') = \<lparr>routers = rs, lastFetch = now'\<rparr> \<and>
     returned (listRouters P c now net now') = rs"
  by (simp add: listRouters_def stale_def refresh_succeeded)

text \<open>
  C3. When the directory fetch fails (network error, status that is not a success,
  timeout, unreadable body, or any other exception of \<^verbatim>\<open>fetchTestbedNodes\<close>),
  \<^verbatim>\<open>listRouters\<close> returns the list that was cached before and leaves the module state
  as it was, \<^verbatim>\<open>lastFetch\<close> included; so if that call found the cache stale, every later
  call fetches again.
\<close>

theorem C3_failed_refresh_keeps_cache:
  assumes "failing_fetch net \<or> (\<exists>e. fst (directory_attempt P net) = Inl e)"
  shows "cache_after (listRouters P c now net now') = c \<and>
         returned (listRouters P c now net now') = routers c \<and>
         lastFetch (cache_after (listRouters P c now net now')) = lastFetch c \<and>
         (lastFetch c + 3600000 < now \<longrightarrow> now \<le> now2 \<longrightarrow>
            fetched (listRouters P (cache_after (listRouters P c now net now')) now2 net2 now2'))"
proof -
  from assms obtain e where e: "fst (directory_attempt P net) = Inl e"
    using failing_fetch_fails by blast
  have keep: "cache_after (listRouters P c now net now') = c"
    and ret: "returned (listRouters P c now net now') = routers c"
    using listRouters_failed [OF e] by simp_all
  show ?thesis
    by (simp add: keep ret listRouters_stale_fetches)
qed

lemmas directory_eval =
  listRouters_def stale_def unchanged_def refresh_def directory_attempt_def
  fetchTestbedNodes_def fetch_signal_def settles_def armed_def timer_of_def clearTimeout_def
  ok_def routers_of_document_def

text \<open>The directory server answers 503 after 120 ms; the next call, 400 ms after the
  first, fetches again.\<close>

theorem C3_witness:
  "cache_after (listRouters decimal_platform \<lparr>routers = [], lastFetch = 1700000000000\<rparr>
       1700003600001
       (Arrives 120 \<lparr>status = 503, contentType = None, body = Arrives 5 JNull\<rparr>) 1700003600121)
     = \<lparr>routers = [], lastFetch = 1700000000000\<rparr> \<and>
   fetched (listRouters decimal_platform
       (cache_after (listRouters decimal_platform \<lparr>routers = [], lastFetch = 1700000000000\<rparr>
          1700003600001
          (Arrives 120 \<lparr>status = 503, contentType = None, body = Arrives 5 JNull\<rparr>)
          1700003600121))
       1700003600400 Never 1700003602400)"
  using C3_failed_refresh_keeps_cache [where
      net = "Arrives 120 \<lparr>status = 503, contentType = None, body = Arrives 5 JNull\<rparr>"
      and P = decimal_platform and c = "\<lparr>routers = [], lastFetch = 1700000000000\<rparr>"
      and now = 1700003600001 and now' = 1700003600121
      and ?now2.0 = 1700003600400 and ?net2.0 = Never and now2' = 1700003602400]
  by (simp add: failing_fetch_def timer_first_def completes_def call_outcome_def directory_eval)

text \<open>A call that runs alone is \<open>listRouters\<close>; two calls that both start on a stale
  cache both fetch.\<close>

lemma run_single:
  "run P nets [Call i now, Resume i now'] (idle c) =
     \<lparr>mem = cache_after (listRouters P c now (nets i) now'), awaiting = [],
      answers = [(i, returned (listRouters P c now (nets i) now'))],
      fetches = fetch_count (listRouters P c now (nets i) now')\<rparr>"
  by (simp add: run_def idle_def listRouters_def unchanged_def fetch_count_def refresh_fetched)

lemma run_overlapping:
  "stale c now1 \<Longrightarrow> stale c now2 \<Longrightarrow>
     fetches (run P nets [Call a now1, Call b now2, Resume a now1', Resume b now2'] (idle c)) = 2"
  by (simp add: run_def idle_def)




section \<open>Parsing and serialising queries\<close>

lemmas query_eval =
  Query_def sp_has_def sp_getAll_def sp_get_def
  parse_count_def parseBooleanParam_def parseFloatParam_def float_param_def

lemma parse_count_ge_1: "1 \<le> parse_count P k"
  by (simp add: parse_count_def split: option.split)

lemma count_q_Query_ge_1: "n \<in> set (count_q (Query P req)) \<Longrightarrow> 1 \<le> n"
  by (auto simp: Query_def Let_def parse_count_ge_1)

lemma count_q_Query_nonempty: "count_q (Query P req) \<noteq> []"
  by (simp add: Query_def Let_def sp_has_def)

lemma transport_Query_nonempty: "transport (Query P req) \<noteq> []"
  by (simp add: Query_def Let_def sp_has_def)

lemma parseFloatParam_cases:
  "parseFloatParam P s key lo hi dflt =
     (if in_range (float_param P s key) lo hi then float_param P s key else dflt)"
  by (simp add: parseFloatParam_def in_range_def split: option.split)

text \<open>
  C5. The \<^verbatim>\<open>Query\<close> constructor is total: none of its steps raises. Every count is an
  integer that is at least 1, and the list is [1] when there is no \<^verbatim>\<open>k\<close> parameter
  (\<^verbatim>\<open>parseInt("1")\<close> being 1); the transport is [udp] when there is no \<^verbatim>\<open>cap\<close>
  parameter; ipv4 is true unless the parameter is 0; ipv6, when the parameter is neither
  1 nor 0, is true exactly when the caller's address contains a colon; lon and lat are
  the explicit parameter when that is a number within [-180, 180] and [-90, 90], and the
  caller's position hint otherwise.
\<close>

theorem C5_query_is_normalised:
  "(\<forall>n \<in> set (count_q (Query P req)). 1 \<le> n) \<and>
   count_q (Query P req) \<noteq> [] \<and>
   (\<not> sp_has (searchParams req) ''k'' \<longrightarrow> parseInt P ''1'' = Some 1 \<longrightarrow>
      count_q (Query P req) = [1]) \<and>
   (\<not> sp_has (searchParams req) ''cap'' \<longrightarrow> transport (Query P req) = [''udp'']) \<and>
   (sp_get (searchParams req) ''ipv4'' \<noteq> Some ''0'' \<longrightarrow> ipv4 (Query P req)) \<and>
   (sp_get (searchParams req) ''ipv6'' \<noteq> Some ''1'' \<longrightarrow> sp_get (searchParams req) ''ipv6'' \<noteq> Some ''0'' \<longrightarrow>
      ipv6 (Query P req) =
        (CHR '':'' \<in> set (case connecting_ip req of None \<Rightarrow> [] | Some a \<Rightarrow> a))) \<and>
   (in_range (float_param P (searchParams req) ''lon'') (- 180) 180 \<longrightarrow>
      lon (Query P req) = float_param P (searchParams req) ''lon'' \<and>
      in_range (lon (Query P req)) (- 180) 180) \<and>
   (\<not> in_range (float_param P (searchParams req) ''lon'') (- 180) 180 \<longrightarrow>
      lon (Query P req) = cf_longitude req) \<and>
   (in_range (float_param P (searchParams req) ''lat'') (- 90) 90 \<longrightarrow>
      lat (Query P req) = float_param P (searchParams req) ''lat'' \<and>
      in_range (lat (Query P req)) (- 90) 90) \<and>
   (\<not> in_range (float_param P (searchParams req) ''lat'') (- 90) 90 \<longrightarrow>
      lat (Query P req) = cf_latitude req)"
proof -
  have count: "\<forall>n \<in> set (count_q (Query P req)). 1 \<le> n"
    using count_q_Query_ge_1 by blast
  have dflt: "\<not> sp_has (searchParams req) ''k'' \<longrightarrow> parseInt P ''1'' = Some 1 \<longrightarrow>
      count_q (Query P req) = [1]"
    by (simp add: Query_def Let_def parse_count_def)
  have cap: "\<not> sp_has (searchParams req) ''cap'' \<longrightarrow> transport (Query P req) = [''udp'']"
    by (simp add: Query_def Let_def)
  have v4: "sp_get (searchParams req) ''ipv4'' \<noteq> Some ''0'' \<longrightarrow> ipv4 (Query P req)"
    by (simp add: Query_def Let_def parseBooleanParam_def)
  have v6: "sp_get (searchParams req) ''ipv6'' \<noteq> Some ''1'' \<longrightarrow> sp_get (searchParams req) ''ipv6'' \<noteq> Some ''0'' \<longrightarrow>
      ipv6 (Query P req) =
        (CHR '':'' \<in> set (case connecting_ip req of None \<Rightarrow> [] | Some a \<Rightarrow> a))"
    by (simp add: Query_def Let_def parseBooleanParam_def)
  have lon: "lon (Query P req) =
      (if in_range (float_param P (searchParams req) ''lon'') (- 180) 180
       then float_param P (searchParams req) ''lon'' else cf_longitude req)"
    by (simp add: Query_def Let_def parseFloatParam_cases)
  have lat: "lat (Query P req) =
      (if in_range (float_param P (searchParams req) ''lat'') (- 90) 90
       then float_param P (searchParams req) ''lat'' else cf_latitude req)"
    by (simp add: Query_def Let_def parseFloatParam_cases)
  show ?thesis
    using count count_q_Query_nonempty dflt cap v4 v6 by (simp add: lon lat)
qed

text \<open>A request with a longitude in range and a latitude out of range, and nothing else.\<close>

theorem C5_witness:
  "Query decimal_platform
     \<lparr>searchParams = [(''lon'', ''12''), (''lat'', ''100'')],
      connecting_ip = Some ''2001:db8::1'', accept = None,
      cf_longitude = Some 5, cf_latitude = Some 6\<rparr>
   = \<lparr>count_q = [1], transport = [''udp''], ipv4 = True, ipv6 = True,
      lon = Some 12, lat = Some 6, network = None\<rparr>"
  using C5_query_is_normalised [of decimal_platform
     "\<lparr>searchParams = [(''lon'', ''12''), (''lat'', ''100'')],
      connecting_ip = Some ''2001:db8::1'', accept = None,
      cf_longitude = Some 5, cf_latitude = Some 6\<rparr>"]
  by (simp add: query_eval decimal_eval)

lemma fold_sp_append:
  "fold (\<lambda>x s. sp_append s a (f x)) xs s0 = s0 @ map (\<lambda>x. (a, f x)) xs"
  by (induction xs arbitrary: s0) (simp_all add: sp_append_def)

lemma sp_getAll_append: "sp_getAll (xs @ ys) k = sp_getAll xs k @ sp_getAll ys k"
  by (simp add: sp_getAll_def)

lemma sp_getAll_map_const:
  "sp_getAll (map (\<lambda>x. (a, f x)) xs) k = (if k = a then map f xs else [])"
  by (induction xs) (simp_all add: sp_getAll_def)

lemma sp_getAll_Cons:
  "sp_getAll ((a, v) # s) k = (if a = k then v # sp_getAll s k else sp_getAll s k)"
  by (simp add: sp_getAll_def)

lemma sp_getAll_Nil: "sp_getAll [] k = []"
  by (simp add: sp_getAll_def)

lemma sp_get_hd: "sp_get s k = (case sp_getAll s k of [] \<Rightarrow> None | v # vs \<Rightarrow> Some v)"
  by (induction s) (auto simp: sp_get_def sp_getAll_def)

lemma sp_set_fresh: "sp_getAll s k = [] \<Longrightarrow> sp_set s k v = s @ [(k, v)]"
  by (simp add: sp_set_def sp_has_def sp_append_def)

lemmas sp_getAll_simps =
  sp_getAll_append sp_getAll_map_const sp_getAll_Cons sp_getAll_Nil

lemma toSearchParams_canonical: "toSearchParams P q = canonical P q"
  by (cases "network q")
     (simp_all add: toSearchParams_def canonical_def Let_def fold_sp_append sp_set_fresh
        sp_getAll_simps)

lemma canonical_getAll:
  "sp_getAll (canonical P q) ''k'' = map (\<lambda>k. toString P (Some (real_of_int k))) (count_q q)"
  "sp_getAll (canonical P q) ''cap'' = transport q"
  "sp_getAll (canonical P q) ''ipv4'' = [if ipv4 q then ''1'' else ''0'']"
  "sp_getAll (canonical P q) ''ipv6'' = [if ipv6 q then ''1'' else ''0'']"
  "sp_getAll (canonical P q) ''lon'' = [toString P (lon q)]"
  "sp_getAll (canonical P q) ''lat'' = [toString P (lat q)]"
  "sp_getAll (canonical P q) ''network'' =
     (case network q of None \<Rightarrow> [] | Some n \<Rightarrow> if n = [] then [] else [n])"
  by (simp_all add: canonical_def sp_getAll_simps split: option.split)

lemma reparse_count:
  assumes "\<forall>k \<in> set ks. 1 \<le> k \<and> parseInt P (toString P (Some (real_of_int k))) = Some k"
  shows "map (parse_count P) (map (\<lambda>k. toString P (Some (real_of_int k))) ks) = ks"
  using assms by (induction ks) (simp_all add: parse_count_def)

text \<open>
  C6, amended. \<^verbatim>\<open>toSearchParams\<close> of a parsed query emits one \<^verbatim>\<open>k\<close> per count and
  one \<^verbatim>\<open>cap\<close> per transport, ipv4 and ipv6 as 1 or 0, lon and lat as the strings of the
  numbers, and \<^verbatim>\<open>network\<close> only when it is a non-empty string. Parsing a request that
  carries these parameters gives back the transport, ipv4 and ipv6; the counts, when
  \<^verbatim>\<open>parseInt\<close> reads back what the number conversion wrote for them; lon and lat, when
  \<^verbatim>\<open>parseFloat\<close> reads back what was written and the value is in range or is the
  position hint of the second request; and the network, with the empty string turned
  into an absent network.
\<close>

theorem C6_serialise_then_parse:
  assumes "q = Query P req" and "ps = toSearchParams P q"
    and "q' = Query P (req'\<lparr>searchParams := ps\<rparr>)"
  shows "sp_getAll ps ''k'' = map (\<lambda>k. toString P (Some (real_of_int k))) (count_q q) \<and>
         sp_getAll ps ''cap'' = transport q \<and>
         sp_getAll ps ''ipv4'' = [if ipv4 q then ''1'' else ''0''] \<and>
         sp_getAll ps ''ipv6'' = [if ipv6 q then ''1'' else ''0''] \<and>
         sp_getAll ps ''lon'' = [toString P (lon q)] \<and>
         sp_getAll ps ''lat'' = [toString P (lat q)] \<and>
         sp_getAll ps ''network'' =
           (case network q of None \<Rightarrow> [] | Some n \<Rightarrow> if n = [] then [] else [n]) \<and>
         ((\<forall>k \<in> set (count_q q). parseInt P (toString P (Some (real_of_int k))) = Some k) \<longrightarrow>
            count_q q' = count_q q) \<and>
         transport q' = transport q \<and> ipv4 q' = ipv4 q \<and> ipv6 q' = ipv6 q \<and>
         (parseFloat P (toString P (lon q)) = lon q \<longrightarrow>
            in_range (lon q) (- 180) 180 \<or> cf_longitude req' = lon q \<longrightarrow> lon q' = lon q) \<and>
         (parseFloat P (toString P (lat q)) = lat q \<longrightarrow>
            in_range (lat q) (- 90) 90 \<or> cf_latitude req' = lat q \<longrightarrow> lat q' = lat q) \<and>
         network q' = (if network q = Some [] then None else network q)"
proof -
  have ps: "ps = canonical P q"
    using assms(2) by (simp add: toSearchParams_canonical)
  have ne: "count_q q \<noteq> []" "transport q \<noteq> []" and ge: "\<forall>k \<in> set (count_q q). 1 \<le> k"
    using assms(1) count_q_Query_nonempty transport_Query_nonempty count_q_Query_ge_1 by blast+
  have emits:
    "sp_getAll ps ''k'' = map (\<lambda>k. toString P (Some (real_of_int k))) (count_q q)"
    "sp_getAll ps ''cap'' = transport q"
    "sp_getAll ps ''ipv4'' = [if ipv4 q then ''1'' else ''0'']"
    "sp_getAll ps ''ipv6'' = [if ipv6 q then ''1'' else ''0'']"
    "sp_getAll ps ''lon'' = [toString P (lon q)]"
    "sp_getAll ps ''lat'' = [toString P (lat q)]"
    "sp_getAll ps ''network'' =
       (case network q of None \<Rightarrow> [] | Some n \<Rightarrow> if n = [] then [] else [n])"
    by (simp_all only: ps canonical_getAll)
  have count: "(\<forall>k \<in> set (count_q q). parseInt P (toString P (Some (real_of_int k))) = Some k) \<longrightarrow>
      count_q q' = count_q q"
  proof
    assume rt: "\<forall>k \<in> set (count_q q). parseInt P (toString P (Some (real_of_int k))) = Some k"
    have "count_q q' = map (parse_count P) (sp_getAll ps ''k'')"
      using ne by (simp add: assms(3) Query_def Let_def sp_has_def emits)
    also have "\<dots> = count_q q"
      unfolding emits using ge rt by (intro reparse_count) simp
    finally show "count_q q' = count_q q" .
  qed
  have cap: "transport q' = transport q"
    using ne by (simp add: assms(3) Query_def Let_def sp_has_def emits)
  have v4: "ipv4 q' = ipv4 q" and v6: "ipv6 q' = ipv6 q"
    by (simp_all add: assms(3) Query_def Let_def parseBooleanParam_def sp_get_hd emits)
  have lon: "parseFloat P (toString P (lon q)) = lon q \<longrightarrow>
      in_range (lon q) (- 180) 180 \<or> cf_longitude req' = lon q \<longrightarrow> lon q' = lon q"
    by (auto simp: assms(3) Query_def Let_def parseFloatParam_cases float_param_def sp_get_hd emits)
  have lat: "parseFloat P (toString P (lat q)) = lat q \<longrightarrow>
      in_range (lat q) (- 90) 90 \<or> cf_latitude req' = lat q \<longrightarrow> lat q' = lat q"
    by (auto simp: assms(3) Query_def Let_def parseFloatParam_cases float_param_def sp_get_hd emits)
  have net: "network q' = (if network q = Some [] then None else network q)"
    by (simp add: assms(3) Query_def Let_def sp_get_hd emits split: option.split)
  show ?thesis
    using emits count cap v4 v6 lon lat net by blast
qed

text \<open>
  C6, as stated, fails: for the request \<^verbatim>\<open>?network=\<close> the network of the query is the
  empty string, the serialisation leaves it out, and parsing the serialisation gives no
  network.
\<close>

theorem C6_counterexample:
  "network (Query decimal_platform
      \<lparr>searchParams = [(''network'', '''')], connecting_ip = None, accept = None,
       cf_longitude = Some 5, cf_latitude = Some 6\<rparr>) = Some [] \<and>
   network (Query decimal_platform
      \<lparr>searchParams = toSearchParams decimal_platform (Query decimal_platform
         \<lparr>searchParams = [(''network'', '''')], connecting_ip = None, accept = None,
          cf_longitude = Some 5, cf_latitude = Some 6\<rparr>),
       connecting_ip = None, accept = None, cf_longitude = Some 5, cf_latitude = Some 6\<rparr>) = None"
  by (simp add: toSearchParams_canonical canonical_def Query_def sp_has_def sp_getAll_def
      sp_get_def parse_count_def parseBooleanParam_def parseFloatParam_def float_param_def
      decimal_eval)

text \<open>A query with two counts, a transport and a network is parsed back from its
  serialisation, whatever the headers and the position hint of the second request.\<close>

theorem C6_witness:
  "Query decimal_platform
     \<lparr>searchParams = toSearchParams decimal_platform (Query decimal_platform
        \<lparr>searchParams = [(''k'', ''2''), (''k'', ''0''), (''cap'', ''wss''), (''lon'', ''12''),
                         (''ipv4'', ''0''), (''network'', ''ndn'')],
         connecting_ip = Some ''2001:db8::1'', accept = None,
         cf_longitude = Some 5, cf_latitude = Some 6\<rparr>),
      connecting_ip = Some ''192.0.2.1'', accept = None,
      cf_longitude = Some 70, cf_latitude = Some 80\<rparr>
   = \<lparr>count_q = [2, 1], transport = [''wss''], ipv4 = False, ipv6 = True,
      lon = Some 12, lat = Some 6, network = Some ''ndn''\<rparr>"
  using C6_serialise_then_parse [OF refl refl refl, of decimal_platform
     "\<lparr>searchParams = [(''k'', ''2''), (''k'', ''0''), (''cap'', ''wss''), (''lon'', ''12''),
                      (''ipv4'', ''0''), (''network'', ''ndn'')],
      connecting_ip = Some ''2001:db8::1'', accept = None,
      cf_longitude = Some 5, cf_latitude = Some 6\<rparr>"
     "\<lparr>searchParams = [], connecting_ip = Some ''192.0.2.1'', accept = None,
      cf_longitude = Some 70, cf_latitude = Some 80\<rparr>"]
  by (simp add: toSearchParams_canonical canonical_def Query_def sp_has_def sp_getAll_def
      sp_get_def parse_count_def parseBooleanParam_def parseFloatParam_def float_param_def
      decimal_eval)

section \<open>The fallback computation\<close>

lemmas fallback_eval =
  fallbackLogic_def sorted_avail_def js_sort_def dist_key_def avail_def truthy_prop_def
  slice0_def first_count_def scenario_cache_def nested_cache_def plain_request_def

lemma truthy_prop_capability:
  "c \<notin> set other_properties \<Longrightarrow> truthy_prop r c = capability r c"
  by (auto simp: truthy_prop_def capability_def other_properties_def)

lemma avail_supports:
  assumes "\<forall>c \<in> set (transport q). c \<notin> set other_properties"
  shows "avail q rs = filter (supports q) rs"
proof -
  have "list_ex (\<lambda>c. truthy_prop r c) (transport q) = supports q r" for r
    using assms by (auto simp: list_ex_iff supports_def truthy_prop_capability)
  then show ?thesis by (simp add: avail_def)
qed

lemma sort_key_stable_sorted: "stable_sorted_by d xs (sort_key d xs)"
  by (simp add: stable_sorted_by_def sorted_sort_key sort_key_stable)

lemma sort_key_short: "length xs \<le> 1 \<Longrightarrow> sort_key d xs = xs"
  by (cases xs) (auto simp: sort_key_def)

lemma geodesic_number: "geodesic P q r = number (dist_key P q r)"
  by (simp add: geodesic_def dist_key_def split: dist.split)

lemma measurable_key: "measurable P q r = (\<exists>x. dist_key P q r = Num x)"
  by (simp add: measurable_def dist_key_def split: dist.split)

lemma js_sort_numbers:
  assumes "length xs \<le> 1 \<or> (\<forall>x \<in> set xs. \<exists>v. k x = Num v)"
  shows "js_sort P k xs = Inr (sort_key (\<lambda>x. number (k x)) xs)"
proof (cases "length xs \<le> 1")
  case True
  then show ?thesis by (simp add: js_sort_def sort_key_short)
next
  case False
  with assms have num: "\<forall>x \<in> set xs. \<exists>v. k x = Num v" by simp
  then have "Throws \<notin> set (map k xs)" and "NaN \<notin> set (map k xs)" by auto
  with False show ?thesis by (simp add: js_sort_def)
qed

lemma js_sort_throws:
  "1 < length xs \<Longrightarrow> x \<in> set xs \<Longrightarrow> k x = Throws \<Longrightarrow> js_sort P k xs = Inl DistanceError"
  by (force simp: js_sort_def)

lemma first_count_Query: "\<exists>n ns. count_q (Query P req) = n # ns \<and> 1 \<le> n"
proof (cases "count_q (Query P req)")
  case Nil
  then show ?thesis using count_q_Query_nonempty by blast
next
  case (Cons n ns)
  then have "n \<in> set (count_q (Query P req))" by simp
  then have "1 \<le> n" by (rule count_q_Query_ge_1)
  with Cons show ?thesis by blast
qed

lemma slice0_take: "0 \<le> n \<Longrightarrow> slice0 xs (Some n) = take (nat n) xs"
  by (simp add: slice0_def)

text \<open>
  C1, as stated, fails in two ways. For the request \<^verbatim>\<open>?cap=host&k=3&lon=0&lat=0\<close> no
  router has a capability named host, and yet the fallback returns all three routers,
  because \<^verbatim>\<open>router["host"]\<close> is the host name, a non-empty string. For the request
  \<^verbatim>\<open>?cap=udp&k=2&lon=0&lat=0\<close> on the directory with the router x there is no answer:
  the distance function raises on the position of x and the exception leaves
  \<^verbatim>\<open>fallbackLogic\<close>.
\<close>

theorem C1_counterexample:
  "snd (fallbackLogic decimal_platform
          (Query decimal_platform
             (plain_request [(''cap'', ''host''), (''k'', ''3''), (''lon'', ''0''), (''lat'', ''0'')]))
          scenario_cache 1700000000500 Never 1700000000500)
     = Inr (Some ''text/plain'', ''a,c,b'') \<and>
   filter (supports (Query decimal_platform
             (plain_request [(''cap'', ''host''), (''k'', ''3''), (''lon'', ''0''), (''lat'', ''0'')])))
     (returned (listRouters decimal_platform scenario_cache 1700000000500 Never 1700000000500))
     = [] \<and>
   snd (fallbackLogic decimal_platform
          (Query decimal_platform
             (plain_request [(''cap'', ''udp''), (''k'', ''2''), (''lon'', ''0''), (''lat'', ''0'')]))
          nested_cache 1700000000500 Never 1700000000500)
     = Inl DistanceError"
  by (simp add: fallback_eval directory_eval query_eval decimal_eval supports_def capability_def)

text \<open>The router x of \<open>nested_cache\<close> is what the parser makes of an entry with the
  position \<^verbatim>\<open>[[1], [2]]\<close>.\<close>

lemma nested_entry_parsed:
  "parse_entry decimal_platform
     (JObj [(''shortname'', JStr ''X''), (''position'', JArr [JArr [JNum 1], JArr [JNum 2]]),
            (''site'', JStr ''http://x/''), (''fch-enabled'', JBool True),
            (''ws-tls'', JBool False)])
   = Inr (Some (last (routers nested_cache)))"
  by (simp add: parse_entry_def preferred_position_def js_or_def js_and_def
      decimal_platform_def http_host_def nested_cache_def scenario_cache_def)

text \<open>
  C1, amended. For a parsed query whose transport names no property of a router other
  than its capabilities, and a directory in which the geodesic distance from the
  position of the query to every supporting router is a number (or which has at most one
  supporting router): the fallback returns, as plain text, the hosts joined by a comma of
  the first \<open>count[0]\<close> routers of the list of the routers that support a named
  capability, in ascending order of geodesic distance, routers at the same distance in
  directory order.
\<close>

theorem C1_fallback_selects_nearest:
  assumes "q = Query P req"
    and "\<forall>c \<in> set (transport q). c \<notin> set other_properties"
    and "rs = returned (listRouters P c now net now')"
    and "length (filter (supports q) rs) \<le> 1 \<or>
         (\<forall>r \<in> set (filter (supports q) rs). measurable P q r)"
  shows "\<exists>sel n ns.
           stable_sorted_by (geodesic P q) (filter (supports q) rs) sel \<and>
           count_q q = n # ns \<and> 1 \<le> n \<and>
           snd (fallbackLogic P q c now net now') =
             Inr (Some ''text/plain'', join '','' (map host (take (nat n) sel)))"
proof -
  obtain n ns where n: "count_q q = n # ns" "1 \<le> n"
    using assms(1) first_count_Query by blast
  have "length (filter (supports q) rs) \<le> 1 \<or>
      (\<forall>r \<in> set (filter (supports q) rs). \<exists>v. dist_key P q r = Num v)"
    using assms(4) by (simp add: measurable_key)
  then have "js_sort P (dist_key P q) (filter (supports q) rs) =
      Inr (sort_key (\<lambda>r. number (dist_key P q r)) (filter (supports q) rs))"
    by (rule js_sort_numbers)
  then have sel: "sorted_avail P q rs = Inr (sort_key (geodesic P q) (filter (supports q) rs))"
    by (simp add: sorted_avail_def avail_supports [OF assms(2)] geodesic_number [abs_def])
  have "snd (fallbackLogic P q c now net now') =
      Inr (Some ''text/plain'',
           join '','' (map host (take (nat n) (sort_key (geodesic P q) (filter (supports q) rs)))))"
    using n
    by (simp add: fallbackLogic_def Let_def first_count_def slice0_take sel assms(3) [symmetric])
  with n sort_key_stable_sorted [of "geodesic P q" "filter (supports q) rs"] show ?thesis
    by blast
qed

text \<open>The request \<^verbatim>\<open>?cap=udp&k=2&lon=0&lat=0\<close> on the three routers: the answer is a,b.\<close>

theorem C1_witness:
  "(\<exists>sel n ns.
      stable_sorted_by
        (geodesic decimal_platform (Query decimal_platform
              (plain_request [(''cap'', ''udp''), (''k'', ''2''), (''lon'', ''0''), (''lat'', ''0'')])))
        (filter (supports (Query decimal_platform
              (plain_request [(''cap'', ''udp''), (''k'', ''2''), (''lon'', ''0''), (''lat'', ''0'')])))
           (routers scenario_cache)) sel \<and>
      count_q (Query decimal_platform
              (plain_request [(''cap'', ''udp''), (''k'', ''2''), (''lon'', ''0''), (''lat'', ''0'')]))
        = n # ns \<and>
      1 \<le> n \<and>
      snd (fallbackLogic decimal_platform
          (Query decimal_platform
              (plain_request [(''cap'', ''udp''), (''k'', ''2''), (''lon'', ''0''), (''lat'', ''0'')]))
          scenario_cache 1700000000500 Never 1700000000500)
        = Inr (Some ''text/plain'', join '','' (map host (take (nat n) sel)))) \<and>
   snd (fallbackLogic decimal_platform
          (Query decimal_platform
              (plain_request [(''cap'', ''udp''), (''k'', ''2''), (''lon'', ''0''), (''lat'', ''0'')]))
          scenario_cache 1700000000500 Never 1700000000500)
     = Inr (Some ''text/plain'', ''a,b'') \<and>
   measurable decimal_platform (Query decimal_platform
              (plain_request [(''cap'', ''udp''), (''k'', ''2''), (''lon'', ''0''), (''lat'', ''0'')]))
     (routers scenario_cache ! 1)"
proof (intro conjI)
  show "snd (fallbackLogic decimal_platform
          (Query decimal_platform
              (plain_request [(''cap'', ''udp''), (''k'', ''2''), (''lon'', ''0''), (''lat'', ''0'')]))
          scenario_cache 1700000000500 Never 1700000000500)
     = Inr (Some ''text/plain'', ''a,b'')"
    by (simp add: fallback_eval directory_eval query_eval decimal_eval)
next
  show "measurable decimal_platform (Query decimal_platform
              (plain_request [(''cap'', ''udp''), (''k'', ''2''), (''lon'', ''0''), (''lat'', ''0'')]))
     (routers scenario_cache ! 1)"
    by (simp add: measurable_def query_eval decimal_eval scenario_cache_def plain_request_def)
next
  show "\<exists>sel n ns.
      stable_sorted_by
        (geodesic decimal_platform (Query decimal_platform
              (plain_request [(''cap'', ''udp''), (''k'', ''2''), (''lon'', ''0''), (''lat'', ''0'')])))
        (filter (supports (Query decimal_platform
              (plain_request [(''cap'', ''udp''), (''k'', ''2''), (''lon'', ''0''), (''lat'', ''0'')])))
           (routers scenario_cache)) sel \<and>
      count_q (Query decimal_platform
              (plain_request [(''cap'', ''udp''), (''k'', ''2''), (''lon'', ''0''), (''lat'', ''0'')]))
        = n # ns \<and>
      1 \<le> n \<and>
      snd (fallbackLogic decimal_platform
          (Query decimal_platform
              (plain_request [(''cap'', ''udp''), (''k'', ''2''), (''lon'', ''0''), (''lat'', ''0'')]))
          scenario_cache 1700000000500 Never 1700000000500)
        = Inr (Some ''text/plain'', join '','' (map host (take (nat n) sel)))"
    by (rule C1_fallback_selects_nearest [OF refl])
       (simp_all add: query_eval decimal_eval other_properties_def object_prototype_names_def
          directory_eval measurable_def supports_def capability_def
          scenario_cache_def plain_request_def)
qed

text \<open>
  C10. Two queries with the same lon, lat, transport and count get the same answer from
  the fallback, on the same directory state and directory fetch, whatever their ipv4,
  ipv6 and network are.
\<close>

theorem C10_fallback_ignores_preferences:
  assumes "lon q1 = lon q2" and "lat q1 = lat q2" and "transport q1 = transport q2"
    and "count_q q1 = count_q q2"
  shows "fallbackLogic P q1 c now net now' = fallbackLogic P q2 c now net now'"
proof -
  have "first_count q1 = first_count q2"
    using assms(4) by (simp add: first_count_def)
  moreover have "sorted_avail P q1 = sorted_avail P q2"
    using assms(1-3) by (simp add: sorted_avail_def dist_key_def [abs_def] avail_def fun_eq_iff)
  ultimately show ?thesis
    by (simp add: fallbackLogic_def Let_def cong: sum.case_cong)
qed

text \<open>Two parsed queries that differ in ipv4, ipv6 and network.\<close>

theorem C10_witness:
  "fallbackLogic decimal_platform
     (Query decimal_platform (plain_request [(''k'', ''2''), (''lon'', ''0''), (''lat'', ''0'')]))
     scenario_cache 1700000000500 Never 1700000000500
   = fallbackLogic decimal_platform
     (Query decimal_platform
        (plain_request [(''k'', ''2''), (''lon'', ''0''), (''lat'', ''0''), (''ipv4'', ''0''),
                        (''ipv6'', ''1''), (''network'', ''ndn'')]))
     scenario_cache 1700000000500 Never 1700000000500 \<and>
   ipv4 (Query decimal_platform (plain_request [(''k'', ''2''), (''lon'', ''0''), (''lat'', ''0'')]))
   \<noteq> ipv4 (Query decimal_platform
        (plain_request [(''k'', ''2''), (''lon'', ''0''), (''lat'', ''0''), (''ipv4'', ''0''),
                        (''ipv6'', ''1''), (''network'', ''ndn'')]))"
  using C10_fallback_ignores_preferences [of
     "Query decimal_platform (plain_request [(''k'', ''2''), (''lon'', ''0''), (''lat'', ''0'')])"
     "Query decimal_platform
        (plain_request [(''k'', ''2''), (''lon'', ''0''), (''lat'', ''0''), (''ipv4'', ''0''),
                        (''ipv6'', ''1''), (''network'', ''ndn'')])"
     decimal_platform scenario_cache 1700000000500 Never 1700000000500]
  by (simp add: query_eval decimal_eval plain_request_def)

section \<open>The resolver and its timers\<close>

lemma settled_in_time:
  "\<not> timer_first ms net \<Longrightarrow> \<exists>t. completes net = Some t \<and> t < ms"
  by (cases "completes net") (auto simp: timer_first_def)

lemma apiRequest_timer_first:
  assumes "timer_first ms (up (toSearchParams P q) acc)"
  shows "apiRequest P q acc up (armed ms) =
           (Inl Timeout, \<lparr>elapsed = ms, due = ms, fired = True, cancelled = True\<rparr>)"
  using assms
  by (auto simp: timer_first_def completes_def apiRequest_def fetch_signal_def settles_def
        armed_def split: eventually.splits if_splits)

lemma apiRequest_call_first:
  assumes "completes (up (toSearchParams P q) acc) = Some t" and "t < ms"
  shows "call_outcome (up (toSearchParams P q) acc) = Some (fst (apiRequest P q acc up (armed ms)))"
    and "snd (apiRequest P q acc up (armed ms)) =
           \<lparr>elapsed = t, due = ms, fired = False, cancelled = False\<rparr>"
  using assms
  by (auto simp: completes_def call_outcome_def apiRequest_def fetch_signal_def settles_def
        armed_def split: eventually.splits if_splits)

lemma call_outcome_not_timeout: "call_outcome net = Some r \<Longrightarrow> r \<noteq> Inl Timeout"
  by (auto simp: call_outcome_def split: eventually.splits if_splits)

lemma fetchTestbedNodes_timer_first:
  assumes "timer_first ms net"
  shows "fetchTestbedNodes P net (armed ms) =
           (Inl Timeout, \<lparr>elapsed = ms, due = ms, fired = True, cancelled = True\<rparr>)"
  using assms
  by (auto simp: timer_first_def completes_def fetchTestbedNodes_def fetch_signal_def
        settles_def armed_def split: eventually.splits if_splits)

lemma fetchTestbedNodes_call_first:
  assumes "completes net = Some t" and "t < ms"
  shows "snd (fetchTestbedNodes P net (armed ms)) =
           \<lparr>elapsed = t, due = ms, fired = False, cancelled = False\<rparr>"
    and "call_outcome net = Some (Inl e) \<Longrightarrow> fst (fetchTestbedNodes P net (armed ms)) = Inl e"
    and "call_outcome net = Some (Inr (ct, j)) \<Longrightarrow>
           fst (fetchTestbedNodes P net (armed ms)) = routers_of_document P j"
  using assms
  by (auto simp: completes_def call_outcome_def fetchTestbedNodes_def fetch_signal_def
        settles_def armed_def split: eventually.splits if_splits)

lemma completes_call_outcome: "completes net = Some t \<Longrightarrow> \<exists>r. call_outcome net = Some r"
  by (auto simp: completes_def call_outcome_def split: eventually.splits if_splits)

lemma parse_entry_error: "parse_entry P e = Inl err \<Longrightarrow> err = TypeError"
  by (auto simp: parse_entry_def split: if_splits option.splits)

lemma parse_entries_error: "parse_entries P es acc = Inl err \<Longrightarrow> err = TypeError"
  by (induction es arbitrary: acc)
     (auto split: sum.splits option.splits dest: parse_entry_error)

lemma object_values_error: "object_values j = Inl err \<Longrightarrow> err = TypeError"
  by (cases j) auto

lemma routers_of_document_error: "routers_of_document P j = Inl err \<Longrightarrow> err = TypeError"
  by (auto simp: routers_of_document_def split: sum.splits
        dest: parse_entries_error object_values_error)

lemma upstream_success:
  assumes "api_success (up (toSearchParams P q) acc) = Some (ct, b)"
  shows "\<exists>p. upstream_attempt P q acc up = (Inr (ct, b), p) \<and> \<not> fired p" and "b \<noteq> []"
proof -
  let ?a = "up (toSearchParams P q) acc"
  from assms have nt: "\<not> timer_first 1000 ?a" and co: "call_outcome ?a = Some (Inr (ct, b))"
    and "b \<noteq> []"
    by (auto simp: api_success_def split: if_splits option.splits sum.splits)
  then show "b \<noteq> []" by simp
  from nt obtain t where t: "completes ?a = Some t" "t < 1000"
    using settled_in_time by blast
  from apiRequest_call_first [where up = up and P = P and q = q and acc = acc, OF t] co
  have "fst (apiRequest P q acc up (armed 1000)) = Inr (ct, b)"
    and "\<not> fired (snd (apiRequest P q acc up (armed 1000)))" by simp_all
  then show "\<exists>p. upstream_attempt P q acc up = (Inr (ct, b), p) \<and> \<not> fired p"
    by (cases "apiRequest P q acc up (armed 1000)") (simp add: upstream_attempt_def)
qed

lemma upstream_no_success:
  assumes "api_success (up (toSearchParams P q) acc) = None"
  shows "(\<exists>e p. upstream_attempt P q acc up = (Inl e, p)) \<or>
         (\<exists>ct p. upstream_attempt P q acc up = (Inr (ct, []), p))"
proof (cases "timer_first 1000 (up (toSearchParams P q) acc)")
  case True
  then show ?thesis by (simp add: upstream_attempt_def apiRequest_timer_first)
next
  case False
  let ?a = "up (toSearchParams P q) acc"
  from False obtain t where t: "completes ?a = Some t" "t < 1000"
    using settled_in_time by blast
  then obtain r where r: "call_outcome ?a = Some r"
    using completes_call_outcome by blast
  with apiRequest_call_first(1) [where up = up and P = P and q = q and acc = acc, OF t] have f: "fst (upstream_attempt P q acc up) = r"
    by (simp add: upstream_attempt_def)
  show ?thesis
  proof (cases r)
    case (Inl e)
    with f show ?thesis by (cases "upstream_attempt P q acc up") auto
  next
    case (Inr cb)
    with assms False r have "snd cb = []"
      by (cases cb) (auto simp: api_success_def split: if_splits)
    with f Inr show ?thesis by (cases "upstream_attempt P q acc up"; cases cb) auto
  qed
qed

text \<open>
  C2, as stated, fails. \<^verbatim>\<open>await fallbackLogic(q)\<close> stands after the \<^verbatim>\<open>try\<close> statement,
  so an exception of the fallback leaves \<^verbatim>\<open>handleQuery\<close> and there is no response, with
  either source tag. Here the upstream API answers 500, the directory is fetched, and its
  document has two enabled entries, one with the position \<^verbatim>\<open>[[1], [2]]\<close>, on which the
  distance function raises.
\<close>

theorem C2_counterexample:
  "api_success (Arrives 50 \<lparr>status = 500, contentType = None, body = Arrives 5 []\<rparr>) = None \<and>
   outcome (handleQuery decimal_platform (plain_request [(''lon'', ''0''), (''lat'', ''0'')])
      (\<lambda>ps acc. Arrives 50 \<lparr>status = 500, contentType = None, body = Arrives 5 []\<rparr>)
      \<lparr>routers = [], lastFetch = 0\<rparr> 1700000000050
      (Arrives 100 \<lparr>status = 200, contentType = None, body = Arrives 20
         (JObj [(''A'', JObj [(''shortname'', JStr ''A''), (''position'', JArr [JNum 0, JNum 0]),
                              (''site'', JStr ''http://a.example/''),
                              (''fch-enabled'', JBool True), (''ws-tls'', JBool True)]),
                (''X'', JObj [(''shortname'', JStr ''X''),
                              (''position'', JArr [JArr [JNum 1], JArr [JNum 2]]),
                              (''site'', JStr ''http://x.example/''),
                              (''fch-enabled'', JBool True), (''ws-tls'', JBool True)])])\<rparr>)
      1700000000170)
     = Inl DistanceError"
  by (simp add: api_success_def timer_first_def completes_def call_outcome_def
      handleQuery_def upstream_attempt_def apiRequest_def fallback_eval directory_eval
      query_eval decimal_eval parse_entry_def preferred_position_def js_or_def js_and_def Let_def)

text \<open>
  C2, amended. \<^verbatim>\<open>handleQuery\<close> returns a response with the source api exactly when the
  upstream attempt returned a 2xx response with a non-empty body before the timer of
  1000 ms elapsed, and then the response carries the body and content type of the
  upstream response. In every other case the fallback is run; if it returns, the response
  carries its body and content type and the source fallback; if it raises, the exception
  leaves \<^verbatim>\<open>handleQuery\<close>.
\<close>

theorem C2_source_is_api_iff_upstream_success:
  assumes "q = Query P req" and "a = up (toSearchParams P q) (accept req)"
    and "h = handleQuery P req up c now net now'"
  shows "((\<exists>r. outcome h = Inr r \<and> source r = ''api'') \<longleftrightarrow> api_success a \<noteq> None) \<and>
         (\<forall>ct b. api_success a = Some (ct, b) \<longrightarrow>
            outcome h = Inr \<lparr>reply_body = b, reply_type = ct, source = ''api'',
                             reply_query = toSearchParams P q\<rparr> \<and>
            directory_call h = None) \<and>
         (api_success a = None \<longrightarrow>
            directory_call h = Some (fst (fallbackLogic P q c now net now')) \<and>
            (\<forall>ct b. snd (fallbackLogic P q c now net now') = Inr (ct, b) \<longrightarrow>
               outcome h = Inr \<lparr>reply_body = b, reply_type = ct, source = ''fallback'',
                                reply_query = toSearchParams P q\<rparr>) \<and>
            (\<forall>e. snd (fallbackLogic P q c now net now') = Inl e \<longrightarrow> outcome h = Inl e))"
proof (cases "api_success a")
  case None
  then have "(\<exists>e p. upstream_attempt P q (accept req) up = (Inl e, p)) \<or>
         (\<exists>ct p. upstream_attempt P q (accept req) up = (Inr (ct, []), p))"
    unfolding assms(2) by (rule upstream_no_success)
  then have "directory_call h = Some (fst (fallbackLogic P q c now net now')) \<and>
            (\<forall>ct b. snd (fallbackLogic P q c now net now') = Inr (ct, b) \<longrightarrow>
               outcome h = Inr \<lparr>reply_body = b, reply_type = ct, source = ''fallback'',
                                reply_query = toSearchParams P q\<rparr>) \<and>
            (\<forall>e. snd (fallbackLogic P q c now net now') = Inl e \<longrightarrow> outcome h = Inl e) \<and>
            \<not> (\<exists>r. outcome h = Inr r \<and> source r = ''api'')"
    by (auto simp: assms(1,3) handleQuery_def Let_def split: prod.splits sum.splits)
  with None show ?thesis by simp
next
  case (Some p)
  obtain ct b where p: "p = (ct, b)" by (cases p)
  with Some have "\<exists>pr. upstream_attempt P q (accept req) up = (Inr (ct, b), pr) \<and> \<not> fired pr"
    and "b \<noteq> []"
    unfolding assms(2) using upstream_success by blast+
  then have "outcome h = Inr \<lparr>reply_body = b, reply_type = ct, source = ''api'',
                             reply_query = toSearchParams P q\<rparr> \<and>
            directory_call h = None"
    by (auto simp: assms(1,3) handleQuery_def Let_def)
  with Some p show ?thesis by simp
qed

text \<open>An upstream call that never answers is answered by the fallback; an upstream
  answer with a body, read after 230 ms, is forwarded.\<close>

theorem C2_witness:
  "outcome (handleQuery decimal_platform (plain_request [(''lon'', ''0''), (''lat'', ''0'')])
      (\<lambda>ps acc. Never) scenario_cache 1700000000500 Never 1700000000500)
     = Inr \<lparr>reply_body = ''a'', reply_type = Some ''text/plain'', source = ''fallback'',
            reply_query = [(''k'', ''1''), (''cap'', ''udp''), (''ipv4'', ''1''), (''ipv6'', ''0''),
                           (''lon'', ''0''), (''lat'', ''0'')]\<rparr> \<and>
   outcome (handleQuery decimal_platform (plain_request [(''lon'', ''0''), (''lat'', ''0'')])
      (\<lambda>ps acc. Arrives 200 \<lparr>status = 200, contentType = Some ''application/json'',
                              body = Arrives 30 ''{}''\<rparr>)
      scenario_cache 1700000000500 Never 1700000000500)
     = Inr \<lparr>reply_body = ''{}'', reply_type = Some ''application/json'', source = ''api'',
            reply_query = [(''k'', ''1''), (''cap'', ''udp''), (''ipv4'', ''1''), (''ipv6'', ''0''),
                           (''lon'', ''0''), (''lat'', ''0'')]\<rparr>"
  using
    C2_source_is_api_iff_upstream_success [OF refl refl refl, of decimal_platform
      "plain_request [(''lon'', ''0''), (''lat'', ''0'')]" "\<lambda>ps acc. Never"
      scenario_cache 1700000000500 Never 1700000000500]
    C2_source_is_api_iff_upstream_success [OF refl refl refl, of decimal_platform
      "plain_request [(''lon'', ''0''), (''lat'', ''0'')]"
      "\<lambda>ps acc. Arrives 200 \<lparr>status = 200, contentType = Some ''application/json'',
                              body = Arrives 30 ''{}''\<rparr>"
      scenario_cache 1700000000500 Never 1700000000500]
  by (simp add: api_success_def timer_first_def completes_def call_outcome_def ok_def
      fallback_eval directory_eval query_eval decimal_eval toSearchParams_canonical canonical_def)

text \<open>
  C8. For the upstream attempt (timer of 1000 ms) and for the directory fetch (timer of
  2000 ms), in terms of the time the network call takes when nothing cancels it. When the
  timer elapses before the call completes, the attempt fails with the timeout error at
  the moment the timer is due, the timer has fired and the call has been cancelled
  through the signal. Otherwise the attempt ends when the call completes, the timer has
  not fired, nothing has been cancelled, and the attempt fails or succeeds as the call
  does, a status outside 2xx being a failure; that failure is not the timeout error. So
  the result is the timeout failure or the outcome of the call, never both.
\<close>

theorem C8_timeout_or_call_outcome:
  "(timer_first 1000 (up (toSearchParams P q) acc) \<longrightarrow>
      upstream_attempt P q acc up =
        (Inl Timeout, \<lparr>elapsed = 1000, due = 1000, fired = True, cancelled = True\<rparr>)) \<and>
   (\<not> timer_first 1000 (up (toSearchParams P q) acc) \<longrightarrow>
      (\<exists>t. completes (up (toSearchParams P q) acc) = Some t \<and> t < 1000 \<and>
           snd (upstream_attempt P q acc up) =
             \<lparr>elapsed = t, due = 1000, fired = False, cancelled = False\<rparr>) \<and>
      call_outcome (up (toSearchParams P q) acc) = Some (fst (upstream_attempt P q acc up)) \<and>
      fst (upstream_attempt P q acc up) \<noteq> Inl Timeout) \<and>
   (timer_first 2000 net \<longrightarrow>
      directory_attempt P net =
        (Inl Timeout, \<lparr>elapsed = 2000, due = 2000, fired = True, cancelled = True\<rparr>)) \<and>
   (\<not> timer_first 2000 net \<longrightarrow>
      (\<exists>t. completes net = Some t \<and> t < 2000 \<and>
           snd (directory_attempt P net) =
             \<lparr>elapsed = t, due = 2000, fired = False, cancelled = False\<rparr>) \<and>
      fst (directory_attempt P net) \<noteq> Inl Timeout \<and>
      (\<forall>e. call_outcome net = Some (Inl e) \<longrightarrow> fst (directory_attempt P net) = Inl e) \<and>
      (\<forall>ct j. call_outcome net = Some (Inr (ct, j)) \<longrightarrow>
         fst (directory_attempt P net) = routers_of_document P j))"
proof (intro conjI impI)
  assume "timer_first 1000 (up (toSearchParams P q) acc)"
  then show "upstream_attempt P q acc up =
        (Inl Timeout, \<lparr>elapsed = 1000, due = 1000, fired = True, cancelled = True\<rparr>)"
    by (simp add: upstream_attempt_def apiRequest_timer_first)
next
  assume "\<not> timer_first 1000 (up (toSearchParams P q) acc)"
  then obtain t where t: "completes (up (toSearchParams P q) acc) = Some t" "t < 1000"
    using settled_in_time by blast
  from apiRequest_call_first [where up = up and P = P and q = q and acc = acc, OF t]
  show "\<exists>t. completes (up (toSearchParams P q) acc) = Some t \<and> t < 1000 \<and>
           snd (upstream_attempt P q acc up) =
             \<lparr>elapsed = t, due = 1000, fired = False, cancelled = False\<rparr>"
    and co: "call_outcome (up (toSearchParams P q) acc) = Some (fst (upstream_attempt P q acc up))"
    using t by (simp_all add: upstream_attempt_def)
  from co show "fst (upstream_attempt P q acc up) \<noteq> Inl Timeout"
    by (rule call_outcome_not_timeout)
next
  assume "timer_first 2000 net"
  then show "directory_attempt P net =
        (Inl Timeout, \<lparr>elapsed = 2000, due = 2000, fired = True, cancelled = True\<rparr>)"
    by (simp add: directory_attempt_def fetchTestbedNodes_timer_first)
next
  assume "\<not> timer_first 2000 net"
  then obtain t where t: "completes net = Some t" "t < 2000"
    using settled_in_time by blast
  from fetchTestbedNodes_call_first(1) [OF t]
  show "\<exists>t. completes net = Some t \<and> t < 2000 \<and>
           snd (directory_attempt P net) =
             \<lparr>elapsed = t, due = 2000, fired = False, cancelled = False\<rparr>"
    using t by (simp add: directory_attempt_def)
  show e: "\<forall>e. call_outcome net = Some (Inl e) \<longrightarrow> fst (directory_attempt P net) = Inl e"
    using fetchTestbedNodes_call_first(2) [OF t] by (simp add: directory_attempt_def)
  show j: "\<forall>ct j. call_outcome net = Some (Inr (ct, j)) \<longrightarrow>
         fst (directory_attempt P net) = routers_of_document P j"
    using fetchTestbedNodes_call_first(3) [OF t] by (simp add: directory_attempt_def)
  from t obtain r where r: "call_outcome net = Some r"
    using completes_call_outcome by blast
  show "fst (directory_attempt P net) \<noteq> Inl Timeout"
  proof (cases r)
    case (Inl x)
    with r e call_outcome_not_timeout [OF r] show ?thesis by simp
  next
    case (Inr cj)
    with r j have "fst (directory_attempt P net) = routers_of_document P (snd cj)"
      by (cases cj) simp
    then show ?thesis using routers_of_document_error [of P "snd cj" Timeout] by auto
  qed
qed

text \<open>The upstream response arrives after 300 ms and its body would take 900 ms more;
  the directory server answers 404 after 150 ms.\<close>

theorem C8_witness:
  "upstream_attempt decimal_platform (Query decimal_platform (plain_request [])) None
     (\<lambda>ps acc. Arrives 300 \<lparr>status = 200, contentType = None, body = Arrives 900 ''x''\<rparr>)
     = (Inl Timeout, \<lparr>elapsed = 1000, due = 1000, fired = True, cancelled = True\<rparr>) \<and>
   directory_attempt decimal_platform
     (Arrives 150 \<lparr>status = 404, contentType = None, body = Arrives 5 JNull\<rparr>)
     = (Inl (HttpStatus 404), \<lparr>elapsed = 150, due = 2000, fired = False, cancelled = False\<rparr>)"
  using C8_timeout_or_call_outcome [of
      "\<lambda>ps acc. Arrives 300 \<lparr>status = 200, contentType = None, body = Arrives 900 ''x''\<rparr>"
      decimal_platform "Query decimal_platform (plain_request [])" None
      "Arrives 150 \<lparr>status = 404, contentType = None, body = Arrives 5 JNull\<rparr>"]
  by (simp add: timer_first_def completes_def call_outcome_def ok_def prod_eq_iff)

text \<open>
  C9 does not hold of the code: \<^verbatim>\<open>clearTimeout(timer)\<close> stands in the \<^verbatim>\<open>try\<close> block
  after the awaited call, so it runs only when the call succeeds. When the upstream API
  or the directory server answers with status 500 after 50 ms, the handler goes on with
  the timer still pending.
\<close>

theorem C9_failed_call_leaves_timer_pending:
  "api_timer (handleQuery decimal_platform (plain_request [(''lon'', ''0''), (''lat'', ''0'')])
      (\<lambda>ps acc. Arrives 50 \<lparr>status = 500, contentType = None, body = Arrives 5 []\<rparr>)
      scenario_cache 1700000000500 Never 1700000000500) = Pending \<and>
   timer_left (listRouters decimal_platform \<lparr>routers = [], lastFetch = 0\<rparr> 1700000000000
      (Arrives 50 \<lparr>status = 500, contentType = None, body = Arrives 5 JNull\<rparr>) 1700000000050)
     = Some Pending"
  by (simp add: handleQuery_def upstream_attempt_def apiRequest_def fallback_eval directory_eval
      Let_def split: prod.splits sum.splits)

section \<open>The earlier revisions\<close>

text \<open>With the constant \<^verbatim>\<open>lastFetch\<close> the cache is stale at every call.\<close>

lemma listRouters_early_always_fetches: "3600000 < now \<Longrightarrow> stale_early now"
  by (simp add: stale_early_def)

text \<open>Without a \<^verbatim>\<open>cap\<close> parameter the earlier constructor has no transport at all.\<close>

lemma cap_early_absent: "\<not> sp_has s ''cap'' \<Longrightarrow> cap_early s = []"
  by (simp add: cap_early_def sp_has_def)

text \<open>
  With \<^verbatim>\<open>abortableFetch\<close> the race is rejected when the timer fires, but the call is not
  cancelled; with the signal passed to \<^verbatim>\<open>fetch\<close>, as in the current revision, it is.
\<close>

lemma abortableFetch_leaves_call_running:
  "\<not> cancelled (snd (abortableFetch st (armed ms)))"
  by (simp add: abortableFetch_def armed_def split: option.split prod.split)

lemma abortableFetch_race_rejects:
  "abortableFetch Never (armed ms) =
     (Inl NoReason, \<lparr>elapsed = ms, due = ms, fired = True, cancelled = False\<rparr>)"
  by (simp add: abortableFetch_def armed_def settles_def)

lemma fetch_signal_cancels:
  "fetch_signal Never (armed ms) =
     (Inl Timeout, \<lparr>elapsed = ms, due = ms, fired = True, cancelled = True\<rparr>)"
  by (simp add: fetch_signal_def armed_def settles_def)

end
